theory Spec2Isabelle
  imports Main "HOL-Library.Word"
begin

section \<open>The error bus: \<open>ErrorManagerReqGlobal\<close>\<close>

text \<open>
  Source: \<^verbatim>\<open>lib/error/error_manager_req_global.cpp\<close>. The manager owns a list of
  subscriptions, shares an error database with the rest of the process and is told, through
  \<^verbatim>\<open>on_error_raised\<close> and \<^verbatim>\<open>on_error_cleared\<close>, about every raise and clear on the bus.
\<close>

text \<open>
  Modelled from the spec: the types \<^verbatim>\<open>ImplementationIdentifier\<close> and \<^verbatim>\<open>Error\<close>
  (header \<^verbatim>\<open>utils/error.hpp\<close>) are not among the source files. The spec gives an error
  instance the fields type, sub_type, origin (module_id, impl_id), message, severity,
  timestamp and uuid.
\<close>

record ImplementationIdentifier =
  module_id :: string
  impl_id :: string

record Error =
  type :: string
  sub_type :: string
  origin :: ImplementationIdentifier
  message :: string
  severity :: nat
  timestamp :: nat
  uuid :: string

text \<open>
  Modelled from the spec: the class \<^verbatim>\<open>ErrorTypeMap\<close> (header
  \<^verbatim>\<open>utils/error/error_type_map.hpp\<close>) is not among the source files. Only its query
  \<^verbatim>\<open>has\<close> is used; the map is the list of the error types that the configuration declares.
\<close>

type_synonym ErrorTypeMap = "string list"

definition has :: "ErrorTypeMap \<Rightarrow> string \<Rightarrow> bool" where
  "has error_type_map t = (t \<in> set error_type_map)"

text \<open>
  Modelled from the spec: the class \<^verbatim>\<open>ErrorDatabase\<close> and the filters (headers
  \<^verbatim>\<open>utils/error/error_database.hpp\<close>, \<^verbatim>\<open>utils/error/error_filter.hpp\<close>) are not among
  the source files. The spec describes a shared database of the active errors whose key is
  (type, sub_type, origin): the database is the list of the active errors in the order in
  which they were added, \<^verbatim>\<open>get_errors\<close> returns the errors that pass every filter,
  \<^verbatim>\<open>add_error\<close> adds one error and \<^verbatim>\<open>remove_errors\<close> removes and returns the errors that
  pass every filter.
\<close>

datatype ErrorFilter =
  TypeFilter string
| SubTypeFilter string
| OriginFilter ImplementationIdentifier

type_synonym ErrorDatabase = "Error list"

fun passes :: "ErrorFilter \<Rightarrow> Error \<Rightarrow> bool" where
  "passes (TypeFilter t) e = (type e = t)"
| "passes (SubTypeFilter s) e = (sub_type e = s)"
| "passes (OriginFilter orig) e = (origin e = orig)"

definition get_errors :: "ErrorDatabase \<Rightarrow> ErrorFilter list \<Rightarrow> Error list" where
  "get_errors db filters = filter (\<lambda>e. list_all (\<lambda>f. passes f e) filters) db"

definition add_error :: "ErrorDatabase \<Rightarrow> Error \<Rightarrow> ErrorDatabase" where
  "add_error db e = db @ [e]"

definition remove_errors :: "ErrorDatabase \<Rightarrow> ErrorFilter list \<Rightarrow> Error list \<times> ErrorDatabase" where
  "remove_errors db filters =
     (get_errors db filters, filter (\<lambda>e. \<not> list_all (\<lambda>f. passes f e) filters) db)"

text \<open>
  The three filters that both handlers of the source build from the error they are given:
  type, sub type and origin, the identity of an error.
\<close>

definition identity_filters :: "Error \<Rightarrow> ErrorFilter list" where
  "identity_filters error =
     [TypeFilter (type error), SubTypeFilter (sub_type error), OriginFilter (origin error)]"

text \<open>
  A subscription is the pair of closures of the source. A closure is an opaque value of
  type \<open>'c\<close>; calling it is recorded in the list \<open>invoked\<close>, with the position of the
  subscription in the list of subscriptions, the member that was called, the closure and
  the error passed to it.
\<close>

record 'c Subscription =
  callback :: 'c
  clear_callback :: 'c

datatype member = Raise_callback | Clear_callback

datatype 'c invocation = Invoke nat member 'c Error

text \<open>The lines written with \<^verbatim>\<open>EVLOG_error\<close>, one constructor for each message.\<close>

datatype diagnostic =
  Type_not_defined string
| Already_raised string string
| Wasnt_added string string
| Not_raised string string
| More_than_one_cleared string string
| Wasnt_removed string string

record 'c ErrorManagerReqGlobal =
  error_type_map :: ErrorTypeMap
  database :: ErrorDatabase
  subscriptions :: "'c Subscription list"
  evlog :: "diagnostic list"
  invoked :: "'c invocation list"

definition subscribe_global_all_errors ::
  "'c \<Rightarrow> 'c \<Rightarrow> 'c ErrorManagerReqGlobal \<Rightarrow> 'c ErrorManagerReqGlobal" where
  "subscribe_global_all_errors cb clear_cb this =
     (let sub = \<lparr>callback = cb, clear_callback = clear_cb\<rparr>
      in this\<lparr>subscriptions := subscriptions this @ [sub]\<rparr>)"

text \<open>
  The loop \<^verbatim>\<open>for (const Subscription& sub : subscriptions)\<close>: one call for each
  subscription, from the front of the list to its back.
\<close>

fun for_each_subscription :: "member \<Rightarrow> Error \<Rightarrow> nat \<Rightarrow> 'c Subscription list \<Rightarrow> 'c invocation list" where
  "for_each_subscription m error i [] = []"
| "for_each_subscription m error i (sub # subs) =
     Invoke i m (case m of Raise_callback \<Rightarrow> callback sub | Clear_callback \<Rightarrow> clear_callback sub) error
       # for_each_subscription m error (Suc i) subs"

definition on_error_raised :: "Error \<Rightarrow> 'c ErrorManagerReqGlobal \<Rightarrow> 'c ErrorManagerReqGlobal" where
  "on_error_raised error this =
     (if \<not> has (error_type_map this) (type error)
      then this\<lparr>evlog := evlog this @ [Type_not_defined (type error)]\<rparr>
      else if get_errors (database this) (identity_filters error) \<noteq> []
      then this\<lparr>evlog := evlog this @ [Already_raised (type error) (sub_type error)]\<rparr>
      else
        let this1 = this\<lparr>database := add_error (database this) error\<rparr>
        in if length (get_errors (database this1) (identity_filters error)) \<noteq> 1
           then this1\<lparr>evlog := evlog this1 @ [Wasnt_added (type error) (sub_type error)]\<rparr>
           else this1\<lparr>invoked := invoked this1 @
                  for_each_subscription Raise_callback error 0 (subscriptions this1)\<rparr>)"

definition on_error_cleared :: "Error \<Rightarrow> 'c ErrorManagerReqGlobal \<Rightarrow> 'c ErrorManagerReqGlobal" where
  "on_error_cleared error this =
     (if \<not> has (error_type_map this) (type error)
      then this\<lparr>evlog := evlog this @ [Type_not_defined (type error)]\<rparr>
      else if get_errors (database this) (identity_filters error) = []
      then this\<lparr>evlog := evlog this @ [Not_raised (type error) (sub_type error)]\<rparr>
      else
        let (res, db') = remove_errors (database this) (identity_filters error);
            this1 = this\<lparr>database := db'\<rparr>
        in if length res > 1
           then this1\<lparr>evlog := evlog this1 @ [More_than_one_cleared (type error) (sub_type error)]\<rparr>
           else if res = []
           then this1\<lparr>evlog := evlog this1 @ [Wasnt_removed (type error) (sub_type error)]\<rparr>
           else this1\<lparr>invoked := invoked this1 @
                  for_each_subscription Clear_callback error 0 (subscriptions this1)\<rparr>)"

section \<open>Runs of the error bus\<close>

text \<open>
  What happens to a manager, in order: a subscription, or a raise or a clear that the bus
  passes to \<^verbatim>\<open>on_error_raised\<close> or \<^verbatim>\<open>on_error_cleared\<close>. In a run the manager is the
  only user of the database.
\<close>

datatype 'c bus_op = Subscribe 'c 'c | Error_raised Error | Error_cleared Error

fun bus_step :: "'c bus_op \<Rightarrow> 'c ErrorManagerReqGlobal \<Rightarrow> 'c ErrorManagerReqGlobal" where
  "bus_step (Subscribe cb clear_cb) this = subscribe_global_all_errors cb clear_cb this"
| "bus_step (Error_raised e) this = on_error_raised e this"
| "bus_step (Error_cleared e) this = on_error_cleared e this"

definition bus_run :: "'c bus_op list \<Rightarrow> 'c ErrorManagerReqGlobal \<Rightarrow> 'c ErrorManagerReqGlobal" where
  "bus_run ops this = fold bus_step ops this"

text \<open>The identity of an error: its type, its sub type and its origin.\<close>

definition identity :: "Error \<Rightarrow> string \<times> string \<times> ImplementationIdentifier" where
  "identity e = (type e, sub_type e, origin e)"

text \<open>
  The calls that the subscriber at position \<open>n\<close> received for an identity, as the sequence of
  the members called: \<open>Raise_callback\<close> is a raise, \<open>Clear_callback\<close> a clear.
\<close>

fun delivered_to :: "nat \<Rightarrow> string \<times> string \<times> ImplementationIdentifier \<Rightarrow> 'c invocation list \<Rightarrow> member list" where
  "delivered_to n idn [] = []"
| "delivered_to n idn (Invoke i m c e # rest) =
     (if i = n \<and> identity e = idn then m # delivered_to n idn rest else delivered_to n idn rest)"

text \<open>A sequence that starts raise, clear, raise, clear and stops anywhere.\<close>

fun raise_clear_prefix :: "member list \<Rightarrow> bool" where
  "raise_clear_prefix [] = True"
| "raise_clear_prefix [m] = (m = Raise_callback)"
| "raise_clear_prefix (m1 # m2 # ms) = (m1 = Raise_callback \<and> m2 = Clear_callback \<and> raise_clear_prefix ms)"

text \<open>
  The invariant of a run for one subscriber and one identity, over the calls made after the
  first \<open>base\<close> ones: the database holds the identity at most once, the calls alternate, and
  the identity is active exactly when the last call was a raise.
\<close>

definition bus_inv ::
  "nat \<Rightarrow> nat \<Rightarrow> Error \<Rightarrow> 'c ErrorManagerReqGlobal \<Rightarrow> bool" where
  "bus_inv base n error this =
     (let d = delivered_to n (identity error) (drop base (invoked this))
      in base \<le> length (invoked this) \<and> n < length (subscriptions this)
         \<and> length (get_errors (database this) (identity_filters error)) \<le> 1
         \<and> raise_clear_prefix d
         \<and> (odd (length d) \<longleftrightarrow> get_errors (database this) (identity_filters error) \<noteq> []))"

section \<open>JSON values, exceptions and effects of the manager\<close>

text \<open>
  Source: \<^verbatim>\<open>src/manager.cpp\<close> and \<^verbatim>\<open>src/system_unix.cpp\<close>. A value of
  \<^verbatim>\<open>nlohmann::json\<close>; an object is the list of its items in the order in which
  \<^verbatim>\<open>items()\<close> visits them.
\<close>

datatype json =
  JNull
| JBool bool
| JNumber int
| JString string
| JArray "json list"
| JObject "(string \<times> json) list"

text \<open>
  The exceptions that the modelled functions throw. The arguments of a constructor are the
  values that the source formats into the text of the exception:
  \<^item> \<open>Json_type_error\<close>: \<^verbatim>\<open>nlohmann::json::type_error\<close>, from a conversion of a value of
    the wrong kind;
  \<^item> \<open>Out_of_range\<close>: \<^verbatim>\<open>std::out_of_range\<close> of \<^verbatim>\<open>std::map::at\<close>;
  \<^item> \<open>Assertion_failed\<close>: a failed \<^verbatim>\<open>assert\<close>;
  \<^item> \<open>Module_not_found a b c d\<close>: the \<^verbatim>\<open>std::runtime_error\<close> of \<^verbatim>\<open>start_modules\<close>,
    "module: a (b) cannot be loaded because no Binary, JavaScript or Python module has been
    found, checked paths: binary: c, js: d";
  \<^item> \<open>Waitpid_failed\<close>: "Syscall to waitpid() failed (errno text)"; the text of
    \<^verbatim>\<open>errno\<close> is left out, here and below;
  \<^item> \<open>Unknown_child_died pid\<close>: "Unkown child width pid (pid) died.";
  \<^item> \<open>Pipe_read_failed\<close>: "Failed to communicate via pipe with forked child process.
    Syscall to read() failed (errno text), exiting";
  \<^item> \<open>Child_did_not_exec msg\<close>: "Forked child process did not complete exec():" followed
    by a line break and \<open>msg\<close>;
  \<^item> \<open>Pipe2_failed\<close>, \<open>Fork_failed\<close>: the two \<^verbatim>\<open>std::runtime_error\<close>s of
    \<^verbatim>\<open>SubProcess::create\<close>, with the errno text.
\<close>

datatype exception =
  Json_type_error
| Out_of_range
| Assertion_failed
| Module_not_found string string string string
| Waitpid_failed
| Unknown_child_died int
| Pipe_read_failed
| Child_did_not_exec string
| Pipe2_failed
| Fork_failed

text \<open>
  Modelled from the spec: the class \<^verbatim>\<open>StatusFifo\<close> (header \<^verbatim>\<open>utils/status_fifo.hpp\<close>) is
  not among the source files. The two events that \<^verbatim>\<open>manager.cpp\<close> writes to it:
\<close>

datatype StatusFifo = ALL_MODULES_STARTED | WAITING_FOR_STANDALONE_MODULES

datatype signal = SIGTERM | SIGKILL

text \<open>
  The lines of the log with level info or critical, one constructor for each format string.
  Lines of level debug and verbose are left out.
\<close>

datatype log_line =
  Ignoring_module string
| Wants_capabilities string "string list"
| Standalone_module_initialized string
| All_modules_initialized
| Waiting_for_standalone_modules
| Not_starting_standalone_module string
| Module_exited_terminating_all string int int
| Exiting_manager
| Module_exited string int int
| Sigterm_failed string int int
| Sigkill_failed string int int
| Sigkill_succeeded string int
| Sigterm_succeeded string int

datatype level = Info | Critical

text \<open>
  What the manager does to the world around it, in the order in which it does it: an update
  of the status fifo, a publication on the broker, the registration and the removal of a
  handler (its topic and its token), a signal sent to a process, a line of the log.
  A token is the handler made for a module, named by the module; \<open>None\<close> is
  \<^verbatim>\<open>nullptr\<close>.
\<close>

datatype effect =
  Status_update StatusFifo
| Publish string json
| Register_handler string "string option"
| Unregister_handler string "string option"
| Kill int signal
| Log level log_line

record ModuleReadyInfo =
  ready :: bool
  token :: "string option"

datatype Language = cpp | javascript | python

record ModuleStartInfo =
  name :: string
  printable_name :: string
  language :: Language
  path :: string
  capabilities :: "string list"

text \<open>
  The state of the manager process: the global table \<^verbatim>\<open>modules_ready\<close>, the local
  variables \<^verbatim>\<open>module_handles\<close> and \<^verbatim>\<open>modules_started\<close> of \<^verbatim>\<open>boot\<close>, and the effects so
  far. A \<^verbatim>\<open>std::map\<close> is the list of its entries in the order of iteration, with no key
  twice.
\<close>

record manager =
  modules_ready :: "(string \<times> ModuleReadyInfo) list"
  module_handles :: "(int \<times> string) list"
  modules_started :: bool
  effects :: "effect list"

section \<open>Child processes: \<open>SubProcess\<close>\<close>

text \<open>
  Source: \<^verbatim>\<open>src/system_unix.cpp\<close>. A handle holds one end of the pipe and the value that
  \<^verbatim>\<open>fork\<close> returned: 0 in the child, the child's process id in the parent. The class is
  declared in \<^verbatim>\<open>system_unix.hpp\<close>, which is not among the source files, and so is the
  constant \<^verbatim>\<open>MAX_PIPE_MESSAGE_SIZE\<close>: it is a parameter of the model.
\<close>

record SubProcess =
  fd :: int
  pid :: int

definition EXIT_SUCCESS :: int where
  "EXIT_SUCCESS = 0"

definition EXIT_FAILURE :: int where
  "EXIT_FAILURE = 1"

text \<open>
  What \<^verbatim>\<open>read\<close> on the pipe gives the parent: an error (return value -1), or the bytes
  that are in the pipe; no bytes is the end of file, when every write end is closed.
\<close>

datatype read_result = Read_failed | Read_data string

text \<open>\<^verbatim>\<open>std::string::c_str\<close> read as a C string: the bytes before the first zero byte.\<close>

definition c_str :: "string \<Rightarrow> string" where
  "c_str s = takeWhile (\<lambda>c. c \<noteq> CHR 0x00) s"



text \<open>
  The parent's side. The buffer \<open>buffer\<close> is \<^verbatim>\<open>std::string message(MAX_PIPE_MESSAGE_SIZE, 0)\<close>
  after \<^verbatim>\<open>read\<close> has copied at most \<^verbatim>\<open>MAX_PIPE_MESSAGE_SIZE\<close> bytes to its front.
\<close>

definition check_child_executed :: "nat \<Rightarrow> SubProcess \<Rightarrow> read_result \<Rightarrow> exception + int" where
  "check_child_executed MAX_PIPE_MESSAGE_SIZE this r =
     (if pid this = 0 then Inl Assertion_failed
      else case r of
        Read_failed \<Rightarrow> Inl Pipe_read_failed
      | Read_data bytes \<Rightarrow>
          let got = take MAX_PIPE_MESSAGE_SIZE bytes;
              retval = length got;
              buffer = got @ replicate (MAX_PIPE_MESSAGE_SIZE - retval) (CHR 0x00)
          in if retval > 0 then Inl (Child_did_not_exec (c_str buffer))
             else Inr (pid this))"

text \<open>
  \<^verbatim>\<open>SubProcess::create\<close> as the parent sees it: \<^verbatim>\<open>pipe2\<close> failed, \<^verbatim>\<open>fork\<close> failed, or
  the parent holds a handle and the pipe will give it a read result.
\<close>

datatype create_outcome =
  Create_pipe2_failed
| Create_fork_failed
| Create_parent SubProcess read_result

section \<open>The supervisor: \<open>start_modules\<close>, \<open>spawn_modules\<close>, \<open>shutdown_modules\<close>, \<open>boot\<close>\<close>

text \<open>
  What \<^verbatim>\<open>manager.cpp\<close> uses of its surroundings: of \<^verbatim>\<open>RuntimeSettings\<close> the fields
  \<^verbatim>\<open>modules_dir\<close> and \<^verbatim>\<open>mqtt_everest_prefix\<close>; of \<^verbatim>\<open>Config\<close> the functions
  \<^verbatim>\<open>printable_identifier\<close> and \<^verbatim>\<open>mqtt_module_prefix\<close>; of the file system
  \<^verbatim>\<open>std::filesystem::exists\<close> and \<^verbatim>\<open>std::filesystem::canonical\<close>; of the operating system
  what \<^verbatim>\<open>SubProcess::create\<close> and the child do for a module, and the value that
  \<^verbatim>\<open>kill\<close> returns. None of them is defined in the source files: they are parameters of
  the model.
\<close>

record surroundings =
  modules_dir :: string
  mqtt_everest_prefix :: string
  printable_identifier :: "string \<Rightarrow> string"
  mqtt_module_prefix :: "string \<Rightarrow> string"
  fs_exists :: "string \<Rightarrow> bool"
  fs_canonical :: "string \<Rightarrow> string"
  max_pipe_message_size :: nat
  create :: "ModuleStartInfo \<Rightarrow> create_outcome"
  kill :: "int \<Rightarrow> signal \<Rightarrow> int"

definition emit :: "effect list \<Rightarrow> manager \<Rightarrow> manager" where
  "emit es st = st\<lparr>effects := effects st @ es\<rparr>"

section \<open>The startup barrier: \<open>module_ready_handler\<close>\<close>

text \<open>
  The assignment \<^verbatim>\<open>modules_ready.at(module_name).ready = b\<close>, for a key that the table has.
\<close>

definition set_ready :: "string \<Rightarrow> bool \<Rightarrow> (string \<times> ModuleReadyInfo) list \<Rightarrow> (string \<times> ModuleReadyInfo) list" where
  "set_ready module_name b tbl =
     map (\<lambda>entry. if fst entry = module_name then (fst entry, (snd entry)\<lparr>ready := b\<rparr>) else entry) tbl"

text \<open>
  The closure \<^verbatim>\<open>module_ready_handler\<close> made for \<open>module_name\<close>; it captures
  \<open>standalone_modules\<close> and \<open>mqtt_everest_prefix\<close>. Its first argument, the topic, is not
  used. \<^verbatim>\<open>json.get<bool>()\<close> throws for a payload that is not a boolean, \<^verbatim>\<open>at\<close> for a
  key that the table does not have. The counters are of type \<^verbatim>\<open>size_t\<close>: 64 bits that wrap
  around.
\<close>

definition module_ready_handler ::
  "string list \<Rightarrow> string \<Rightarrow> string \<Rightarrow> json \<Rightarrow> manager \<Rightarrow> exception + manager" where
  "module_ready_handler standalone_modules everest_prefix module_name payload st =
     (case payload of
        JBool b \<Rightarrow>
          (case map_of (modules_ready st) module_name of
             None \<Rightarrow> Inl Out_of_range
           | Some _ \<Rightarrow>
               let tbl = set_ready module_name b (modules_ready st);
                   modules_spawned = (of_nat (length (filter (\<lambda>entry. ready (snd entry)) tbl)) :: 64 word);
                   st1 = st\<lparr>modules_ready := tbl\<rparr>;
                   st2 = (if standalone_modules \<noteq> [] \<and> module_name \<in> set standalone_modules
                          then emit [Log Info (Standalone_module_initialized module_name)] st1
                          else st1)
               in if list_all (\<lambda>element. ready (snd element)) tbl
                  then Inr (emit [Status_update ALL_MODULES_STARTED,
                                  Log Info All_modules_initialized,
                                  Publish (everest_prefix @ ''ready'') (JBool True)] st2)
                  else if standalone_modules \<noteq> []
                  then (if modules_spawned =
                           (of_nat (length tbl) :: 64 word) - of_nat (length standalone_modules)
                        then Inr (emit [Log Info Waiting_for_standalone_modules,
                                        Status_update WAITING_FOR_STANDALONE_MODULES] st2)
                        else Inr st2)
                  else Inr st2)
      | _ \<Rightarrow> Inl Json_type_error)"

text \<open>
  A run of the barrier: the ready messages in the order in which the broker delivers them,
  each to the handler of the module on whose topic it arrived. The handlers run one after
  the other (they take \<^verbatim>\<open>modules_ready_mutex\<close>); an exception ends the run.
\<close>

fun ready_messages :: "string list \<Rightarrow> string \<Rightarrow> (string \<times> json) list \<Rightarrow> manager \<Rightarrow> exception + manager" where
  "ready_messages standalone_modules everest_prefix [] st = Inr st"
| "ready_messages standalone_modules everest_prefix (msg # msgs) st =
     (case module_ready_handler standalone_modules everest_prefix (fst msg) (snd msg) st of
        Inl e \<Rightarrow> Inl e
      | Inr st' \<Rightarrow> ready_messages standalone_modules everest_prefix msgs st')"

text \<open>How often the global ready signal, payload \<^verbatim>\<open>true\<close>, is among the effects.\<close>

definition global_ready_count :: "string \<Rightarrow> effect list \<Rightarrow> nat" where
  "global_ready_count everest_prefix es =
     length (filter (\<lambda>e. e = Publish (everest_prefix @ ''ready'') (JBool True)) es)"

section \<open>Sets of modules in the table of the barrier\<close>



section \<open>Starting the modules\<close>

text \<open>
  \<^verbatim>\<open>operator/\<close> of \<^verbatim>\<open>std::filesystem::path\<close> on a POSIX system: an absolute right
  operand replaces the left one; otherwise a separator is put between the two when the left
  operand has a file name, that is, is not empty and does not end with a separator.
\<close>

definition path_append :: "string \<Rightarrow> string \<Rightarrow> string" where
  "path_append p q =
     (if q \<noteq> [] \<and> hd q = CHR ''/'' then q
      else if p \<noteq> [] \<and> last p \<noteq> CHR ''/'' then p @ ''/'' @ q
      else p @ q)"

text \<open>The conversion of a JSON value to \<^verbatim>\<open>std::string\<close>.\<close>

definition json_string :: "json \<Rightarrow> exception + string" where
  "json_string j = (case j of JString s \<Rightarrow> Inr s | _ \<Rightarrow> Inl Json_type_error)"

fun json_strings :: "json list \<Rightarrow> exception + string list" where
  "json_strings [] = Inr []"
| "json_strings (j # js) =
     (case json_string j of
        Inl e \<Rightarrow> Inl e
      | Inr s \<Rightarrow> (case json_strings js of Inl e \<Rightarrow> Inl e | Inr ss \<Rightarrow> Inr (s # ss)))"

text \<open>The values between \<^verbatim>\<open>begin()\<close> and \<^verbatim>\<open>end()\<close> of a JSON value.\<close>

definition json_elements :: "json \<Rightarrow> json list" where
  "json_elements j =
     (case j of JNull \<Rightarrow> [] | JArray js \<Rightarrow> js | JObject items \<Rightarrow> map snd items | _ \<Rightarrow> [j])"

text \<open>\<^verbatim>\<open>std::string module_type = main_config[module_name]["module"]\<close>.\<close>

definition module_type_of :: "json \<Rightarrow> exception + string" where
  "module_type_of module_config =
     (case module_config of
        JObject items \<Rightarrow>
          (case map_of items ''module'' of None \<Rightarrow> Inl Json_type_error | Some j \<Rightarrow> json_string j)
      | _ \<Rightarrow> Inl Json_type_error)"

text \<open>The lambda that reads the capabilities of a module from its configuration.\<close>

definition capabilities_of :: "json \<Rightarrow> exception + string list" where
  "capabilities_of module_config =
     (case module_config of
        JObject items \<Rightarrow>
          (case map_of items ''capabilities'' of
             None \<Rightarrow> Inr []
           | Some cap \<Rightarrow> json_strings (json_elements cap))
      | _ \<Rightarrow> Inr [])"

text \<open>
  \<^verbatim>\<open>std::map::emplace\<close>: a new entry for a key that the map does not have, no change
  otherwise. The configuration is visited in the order of its keys, so a new entry comes
  last in a table that was empty at the start.
\<close>

definition emplace :: "'k \<Rightarrow> 'v \<Rightarrow> ('k \<times> 'v) list \<Rightarrow> ('k \<times> 'v) list" where
  "emplace k v m = (if k \<in> fst ` set m then m else m @ [(k, v)])"

definition set_token :: "string \<Rightarrow> string option \<Rightarrow> (string \<times> ModuleReadyInfo) list \<Rightarrow> (string \<times> ModuleReadyInfo) list" where
  "set_token module_name t tbl =
     map (\<lambda>entry. if fst entry = module_name then (fst entry, (snd entry)\<lparr>token := t\<rparr>) else entry) tbl"

text \<open>
  The choice of the start language: the three paths are tried in the order of the source,
  and the fourth branch throws. The arguments of \<open>Module_not_found\<close> are the four values
  that \<^verbatim>\<open>fmt::format\<close> puts into the four placeholders of its format string: the call has
  a comma before the line for the Python path, which makes that line the first argument.
\<close>

definition probe_module ::
  "surroundings \<Rightarrow> string \<Rightarrow> string \<Rightarrow> string list \<Rightarrow> exception + ModuleStartInfo" where
  "probe_module env module_name module_type caps =
     (let binary_filename = module_type;
          javascript_library_filename = ''index.js'';
          python_filename = ''module.py'';
          module_path = path_append (modules_dir env) module_type;
          printable_module_name = printable_identifier env module_name;
          binary_path = path_append module_path binary_filename;
          javascript_library_path = path_append module_path javascript_library_filename;
          python_module_path = path_append module_path python_filename
      in if fs_exists env binary_path
         then Inr \<lparr>name = module_name, printable_name = printable_module_name, language = cpp,
                   path = binary_path, capabilities = caps\<rparr>
         else if fs_exists env javascript_library_path
         then Inr \<lparr>name = module_name, printable_name = printable_module_name,
                   language = javascript, path = fs_canonical env javascript_library_path,
                   capabilities = caps\<rparr>
         else if fs_exists env python_module_path
         then Inr \<lparr>name = module_name, printable_name = printable_module_name,
                   language = python, path = fs_canonical env python_module_path,
                   capabilities = caps\<rparr>
         else Inl (Module_not_found (''    py:  {}'' @ [CHR 0x0A]) module_name module_type binary_path))"

text \<open>
  The body of the loop of \<^verbatim>\<open>start_modules\<close> for one item of the main configuration: the
  state and the list \<^verbatim>\<open>modules_to_spawn\<close> go in and come out. When the body throws, the
  result is the exception and the state of the manager at the throw: the table
  \<^verbatim>\<open>modules_ready\<close> is global and a registered handler stays registered, so what the body
  did before the throw stays done.
\<close>

definition start_module ::
  "surroundings \<Rightarrow> string list \<Rightarrow> string list \<Rightarrow> string \<times> json \<Rightarrow>
   manager \<times> ModuleStartInfo list \<Rightarrow> exception \<times> manager + manager \<times> ModuleStartInfo list" where
  "start_module env ignored_modules standalone_modules item acc =
     (let st = fst acc; modules_to_spawn = snd acc; module_name = fst item
      in if module_name \<in> set ignored_modules
         then Inr (emit [Log Info (Ignoring_module module_name)] st, modules_to_spawn)
         else case module_type_of (snd item) of
           Inl e \<Rightarrow> Inl (e, st)
         | Inr module_type \<Rightarrow>
             let st1 = st\<lparr>modules_ready :=
                          emplace module_name \<lparr>ready = False, token = None\<rparr> (modules_ready st)\<rparr>
             in case capabilities_of (snd item) of
               Inl e \<Rightarrow> Inl (e, st1)
             | Inr caps \<Rightarrow>
                 let st2 = (if caps \<noteq> [] then emit [Log Info (Wants_capabilities module_name caps)] st1
                            else st1);
                     topic = mqtt_module_prefix env module_name @ ''/ready'';
                     st3 = st2\<lparr>modules_ready :=
                                 set_token module_name (Some module_name) (modules_ready st2)\<rparr>;
                     st4 = emit [Register_handler topic (Some module_name)] st3
                 in if module_name \<in> set standalone_modules
                    then Inr (emit [Log Info (Not_starting_standalone_module module_name)] st4,
                              modules_to_spawn)
                    else case probe_module env module_name module_type caps of
                      Inl e \<Rightarrow> Inl (e, st4)
                    | Inr info \<Rightarrow> Inr (st4, modules_to_spawn @ [info]))"

fun start_modules_loop ::
  "surroundings \<Rightarrow> string list \<Rightarrow> string list \<Rightarrow> (string \<times> json) list \<Rightarrow>
   manager \<times> ModuleStartInfo list \<Rightarrow> exception \<times> manager + manager \<times> ModuleStartInfo list" where
  "start_modules_loop env ignored_modules standalone_modules [] acc = Inr acc"
| "start_modules_loop env ignored_modules standalone_modules (item # items) acc =
     (case start_module env ignored_modules standalone_modules item acc of
        Inl thrown \<Rightarrow> Inl thrown
      | Inr acc' \<Rightarrow> start_modules_loop env ignored_modules standalone_modules items acc')"

text \<open>
  \<^verbatim>\<open>started_modules[child_pid] = module.name\<close> on a \<^verbatim>\<open>std::map\<close> whose keys are process
  ids: the entry of the key is replaced or made, and the entries stay in the order of
  their keys.
\<close>

definition map_assign :: "int \<Rightarrow> string \<Rightarrow> (int \<times> string) list \<Rightarrow> (int \<times> string) list" where
  "map_assign k v m = insort_key fst (k, v) (filter (\<lambda>entry. fst entry \<noteq> k) m)"

text \<open>
  \<^verbatim>\<open>spawn_modules\<close> in the parent process. The child's branch of the source ends in
  \<^verbatim>\<open>exec\<close> or in \<^verbatim>\<open>send_error_and_exit\<close> and never reaches the code below it.
\<close>

fun spawn_modules ::
  "surroundings \<Rightarrow> ModuleStartInfo list \<Rightarrow> (int \<times> string) list \<Rightarrow> exception + (int \<times> string) list" where
  "spawn_modules env [] started_modules = Inr started_modules"
| "spawn_modules env (module # modules) started_modules =
     (case create env module of
        Create_pipe2_failed \<Rightarrow> Inl Pipe2_failed
      | Create_fork_failed \<Rightarrow> Inl Fork_failed
      | Create_parent proc_handle r \<Rightarrow>
          (case check_child_executed (max_pipe_message_size env) proc_handle r of
             Inl e \<Rightarrow> Inl e
           | Inr child_pid \<Rightarrow>
               spawn_modules env modules (map_assign child_pid (name module) started_modules)))"

text \<open>
  \<^verbatim>\<open>start_modules\<close>: the loop, then \<^verbatim>\<open>spawn_modules\<close>. When one of them throws, the result
  is the exception and the state of the manager at the throw.
\<close>

definition start_modules ::
  "surroundings \<Rightarrow> (string \<times> json) list \<Rightarrow> string list \<Rightarrow> string list \<Rightarrow> manager \<Rightarrow>
   exception \<times> manager + (int \<times> string) list \<times> manager" where
  "start_modules env main_config ignored_modules standalone_modules st =
     (case start_modules_loop env ignored_modules standalone_modules main_config (st, []) of
        Inl thrown \<Rightarrow> Inl thrown
      | Inr acc \<Rightarrow>
          (case spawn_modules env (snd acc) [] of
             Inl e \<Rightarrow> Inl (e, fst acc)
           | Inr started_modules \<Rightarrow> Inr (started_modules, fst acc)))"

section \<open>Ready messages while \<open>start_modules\<close> is in its loop\<close>





section \<open>Shutting the modules down, and the wait loop of \<open>boot\<close>\<close>

text \<open>What \<^verbatim>\<open>shutdown_modules\<close> does for one child: its signals and the lines of the log.\<close>

definition terminate_child :: "surroundings \<Rightarrow> int \<times> string \<Rightarrow> effect list" where
  "terminate_child env child =
     (let retval = kill env (fst child) SIGTERM
      in if retval \<noteq> 0
         then [Kill (fst child) SIGTERM, Log Critical (Sigterm_failed (snd child) (fst child) retval)] @
              (let retval2 = kill env (fst child) SIGKILL
               in if retval2 \<noteq> 0
                  then [Kill (fst child) SIGKILL,
                        Log Critical (Sigkill_failed (snd child) (fst child) retval2)]
                  else [Kill (fst child) SIGKILL, Log Info (Sigkill_succeeded (snd child) (fst child))])
         else [Kill (fst child) SIGTERM, Log Info (Sigterm_succeeded (snd child) (fst child))])"

definition shutdown_modules :: "surroundings \<Rightarrow> (int \<times> string) list \<Rightarrow> manager \<Rightarrow> manager" where
  "shutdown_modules env modules st =
     (let unregistered =
            map (\<lambda>module. Unregister_handler (mqtt_module_prefix env (fst module) @ ''/ready'')
                                             (token (snd module)))
                (modules_ready st);
          st1 = (emit unregistered st)\<lparr>modules_ready := []\<rparr>
      in emit (concat (map (terminate_child env) modules)) st1)"

text \<open>
  How \<^verbatim>\<open>boot\<close> ends: it returns an exit code, it throws, or it is still in its loop.
  A throw leaves \<^verbatim>\<open>boot\<close>; \<^verbatim>\<open>main\<close> catches it and returns \<^verbatim>\<open>EXIT_FAILURE\<close>.
\<close>

datatype outcome = Returned int | Thrown exception | Still_running

text \<open>
  One turn of the loop \<^verbatim>\<open>while (true)\<close> in a build without the admin panel, for the
  process id and the status that \<^verbatim>\<open>waitpid\<close> gave.
\<close>

definition wait_turn :: "surroundings \<Rightarrow> int \<times> int \<Rightarrow> manager \<Rightarrow> outcome \<times> manager" where
  "wait_turn env waited st =
     (let child_pid = fst waited; wstatus = snd waited
      in if child_pid = 0 then (Still_running, st)
         else if child_pid = - 1 then (Thrown Waitpid_failed, st)
         else case map_of (module_handles st) child_pid of
           None \<Rightarrow> (Thrown (Unknown_child_died child_pid), st)
         | Some module_name \<Rightarrow>
             let st1 = st\<lparr>module_handles :=
                          filter (\<lambda>entry. fst entry \<noteq> child_pid) (module_handles st)\<rparr>
             in if modules_started st1
                then
                  let st2 = emit [Log Critical
                                   (Module_exited_terminating_all module_name child_pid wstatus)] st1;
                      st3 = shutdown_modules env (module_handles st2) st2;
                      st4 = st3\<lparr>modules_started := False\<rparr>
                  in (Returned EXIT_FAILURE, emit [Log Critical Exiting_manager] st4)
                else (Still_running,
                      emit [Log Info (Module_exited module_name child_pid wstatus)] st1))"

fun wait_loop :: "surroundings \<Rightarrow> (int \<times> int) list \<Rightarrow> manager \<Rightarrow> outcome \<times> manager" where
  "wait_loop env [] st = (Still_running, st)"
| "wait_loop env (waited # rest) st =
     (case wait_turn env waited st of
        (Still_running, st') \<Rightarrow> wait_loop env rest st'
      | r \<Rightarrow> r)"

text \<open>
  The part of \<^verbatim>\<open>boot\<close> from the call of \<^verbatim>\<open>start_modules\<close> on, in a build without the admin
  panel and with no user to switch to, for the results that \<^verbatim>\<open>waitpid\<close> gives in turn.
  When \<^verbatim>\<open>start_modules\<close> throws, the result holds the exception and the state of the
  manager at the throw. The lists \<open>ignored_modules\<close> and
  \<open>standalone_modules\<close> are the ones that \<^verbatim>\<open>boot\<close> passes to \<^verbatim>\<open>start_modules\<close>, the
  second after \<^verbatim>\<open>boot\<close> has added the modules that the configuration marks as standalone.
\<close>

definition boot ::
  "surroundings \<Rightarrow> (string \<times> json) list \<Rightarrow> string list \<Rightarrow> string list \<Rightarrow> (int \<times> int) list \<Rightarrow>
   manager \<Rightarrow> outcome \<times> manager" where
  "boot env main_config ignored_modules standalone_modules waits st =
     (case start_modules env main_config ignored_modules standalone_modules st of
        Inl thrown \<Rightarrow> (Thrown (fst thrown), snd thrown)
      | Inr started \<Rightarrow>
          wait_loop env waits
            ((snd started)\<lparr>module_handles := fst started, modules_started := True\<rparr>))"

text \<open>
  \<^verbatim>\<open>main\<close> around \<^verbatim>\<open>boot\<close>: the value that \<^verbatim>\<open>main\<close> returns, if it returns. An
  exception is caught and makes the value \<^verbatim>\<open>EXIT_FAILURE\<close>; a failed \<^verbatim>\<open>assert\<close> aborts
  the process, and \<^verbatim>\<open>main\<close> returns nothing.
\<close>

definition main :: "outcome \<Rightarrow> int option" where
  "main booted =
     (case booted of
        Returned code \<Rightarrow> Some code
      | Thrown e \<Rightarrow> (if e = Assertion_failed then None else Some EXIT_FAILURE)
      | Still_running \<Rightarrow> None)"

section \<open>Reading the effects\<close>

text \<open>
  The events written to the status fifo, and the signals sent to one process, in the order
  of the effects.
\<close>

fun status_updates :: "effect list \<Rightarrow> StatusFifo list" where
  "status_updates [] = []"
| "status_updates (Status_update s # es) = s # status_updates es"
| "status_updates (e # es) = status_updates es"

fun signals_to :: "int \<Rightarrow> effect list \<Rightarrow> signal list" where
  "signals_to p [] = []"
| "signals_to p (Kill q s # es) = (if q = p then s # signals_to p es else signals_to p es)"
| "signals_to p (e # es) = signals_to p es"

section \<open>The framework instance: \<open>Everest::get_instance\<close>\<close>

text \<open>
  Source: \<^verbatim>\<open>include/framework/everest.hpp\<close>. The object \<^verbatim>\<open>instance\<close> (here \<open>static_instance\<close>) is a static local
  variable of the overload with five parameters: it is constructed when control passes its
  declaration for the first time, and again at the next call if the constructor threw. The
  state of the process is that variable (\<open>None\<close> before it is constructed) and the list of
  the arguments with which the constructor has run. The constructor is declared only; it is
  the parameter \<open>ctor\<close>.
\<close>

record ('cfg, 'e) process =
  static_instance :: "'e option"
  constructed_with :: "(string \<times> 'cfg \<times> bool \<times> string \<times> string) list"

definition get_instance ::
  "(string \<Rightarrow> 'cfg \<Rightarrow> bool \<Rightarrow> string \<Rightarrow> string \<Rightarrow> exception + 'e) \<Rightarrow>
   string \<Rightarrow> 'cfg \<Rightarrow> bool \<Rightarrow> string \<Rightarrow> string \<Rightarrow>
   ('cfg, 'e) process \<Rightarrow> (exception + 'e) \<times> ('cfg, 'e) process" where
  "get_instance ctor module_id' config validate_data_with_schema mqtt_server_address mqtt_server_port p =
     (case static_instance p of
        Some i \<Rightarrow> (Inr i, p)
      | None \<Rightarrow>
          let p1 = p\<lparr>constructed_with := constructed_with p @
                      [(module_id', config, validate_data_with_schema, mqtt_server_address,
                        mqtt_server_port)]\<rparr>
          in case ctor module_id' config validate_data_with_schema mqtt_server_address mqtt_server_port of
               Inl e \<Rightarrow> (Inl e, p1)
             | Inr i \<Rightarrow> (Inr i, p1\<lparr>static_instance := Some i\<rparr>))"

definition get_instance_3 ::
  "(string \<Rightarrow> 'cfg \<Rightarrow> bool \<Rightarrow> string \<Rightarrow> string \<Rightarrow> exception + 'e) \<Rightarrow>
   string \<Rightarrow> 'cfg \<Rightarrow> bool \<Rightarrow> ('cfg, 'e) process \<Rightarrow> (exception + 'e) \<times> ('cfg, 'e) process" where
  "get_instance_3 ctor module_id' config validate_data_with_schema p =
     get_instance ctor module_id' config validate_data_with_schema ''localhost'' ''1883'' p"

definition get_instance_2 ::
  "(string \<Rightarrow> 'cfg \<Rightarrow> bool \<Rightarrow> string \<Rightarrow> string \<Rightarrow> exception + 'e) \<Rightarrow>
   string \<Rightarrow> 'cfg \<Rightarrow> ('cfg, 'e) process \<Rightarrow> (exception + 'e) \<times> ('cfg, 'e) process" where
  "get_instance_2 ctor module_id' config p = get_instance_3 ctor module_id' config True p"

text \<open>Calls of \<open>get_instance\<close> one after the other, each with its own arguments.\<close>

fun get_instance_calls ::
  "(string \<Rightarrow> 'cfg \<Rightarrow> bool \<Rightarrow> string \<Rightarrow> string \<Rightarrow> exception + 'e) \<Rightarrow>
   (string \<times> 'cfg \<times> bool \<times> string \<times> string) list \<Rightarrow>
   ('cfg, 'e) process \<Rightarrow> (exception + 'e) list \<times> ('cfg, 'e) process" where
  "get_instance_calls ctor [] p = ([], p)"
| "get_instance_calls ctor ((module_id', config, validate, address, port) # rest) p =
     (let r = get_instance ctor module_id' config validate address port p;
          rs = get_instance_calls ctor rest (snd r)
      in (fst r # fst rs, snd rs))"

section \<open>Loading the configuration\<close>

text \<open>
  Modelled from the spec: the loader of the configuration (the constructors of
  \<^verbatim>\<open>ManagerSettings\<close> and \<^verbatim>\<open>ManagerConfig\<close>, in \<^verbatim>\<open>runtime.cpp\<close> and \<^verbatim>\<open>config.cpp\<close>) is not
  among the source files; \<^verbatim>\<open>config.hpp\<close> declares it and \<^verbatim>\<open>tests/test_config.cpp\<close> calls
  it. The spec gives \<^verbatim>\<open>load(settings) -> ConfigModel | ConfigError\<close>, an error
  \<^verbatim>\<open>ConfigError{file, json-pointer, reason}\<close>, and two sentences on the documents at the
  edge: "Empty / null / non-object config documents are accepted as 'no modules configured'
  rather than errors. A config document whose top level is a string is a fatal ConfigError."
  The document is the JSON value that the parser gives for the file: \<open>JNull\<close> for an empty
  file and for \<^verbatim>\<open>null\<close>. The test expects no exception for an empty file, an empty object
  and \<^verbatim>\<open>null\<close>, and an exception of type \<^verbatim>\<open>BootException\<close> for a string. What the loader
  does with an object that has entries (steps 1 to 7 of the spec) is the parameter
  \<open>resolve\<close>.
\<close>

record ConfigError =
  config_file_name :: string
  json_pointer :: string
  reason :: string

record ConfigModel =
  active_modules :: "(string \<times> json) list"

definition module_ids :: "ConfigModel \<Rightarrow> string list" where
  "module_ids model = map fst (active_modules model)"

definition load ::
  "(string \<Rightarrow> (string \<times> json) list \<Rightarrow> ConfigError + ConfigModel) \<Rightarrow> string \<Rightarrow> json \<Rightarrow>
   ConfigError + ConfigModel" where
  "load resolve config_file document =
     (case document of
        JString s \<Rightarrow>
          Inl \<lparr>config_file_name = config_file, json_pointer = [], reason = ''the document is a string''\<rparr>
      | JObject items \<Rightarrow>
          (if items = [] then Inr \<lparr>active_modules = []\<rparr> else resolve config_file items)
      | _ \<Rightarrow> Inr \<lparr>active_modules = []\<rparr>)"

section \<open>Concrete inputs\<close>

text \<open>An error, and a bus with one declared error type and two subscribers.\<close>

definition example_error :: Error where
  "example_error =
     \<lparr>type = ''evse_manager/Inoperative'', sub_type = ''a'',
      origin = \<lparr>module_id = ''evse'', impl_id = ''main''\<rparr>,
      message = ''no power'', severity = 2, timestamp = 17, uuid = ''u-1''\<rparr>"

definition example_bus :: "nat ErrorManagerReqGlobal" where
  "example_bus =
     \<lparr>error_type_map = [''evse_manager/Inoperative''], database = [],
      subscriptions = [\<lparr>callback = 10, clear_callback = 11\<rparr>, \<lparr>callback = 20, clear_callback = 21\<rparr>],
      evlog = [], invoked = []\<rparr>"

text \<open>
  An error with the type and the origin of \<open>example_error\<close> and another sub type, and an
  error with the identity of \<open>example_error\<close> and another message, time and uuid.
\<close>

definition sibling_error :: Error where
  "sibling_error = example_error\<lparr>sub_type := ''b'', uuid := ''u-2''\<rparr>"

definition repeated_error :: Error where
  "repeated_error = example_error\<lparr>message := ''still no power'', timestamp := 18, uuid := ''u-3''\<rparr>"

text \<open>
  A run in which a third subscriber registers while \<open>example_error\<close> is active, and an error
  whose type is not declared.
\<close>

definition example_ops :: "nat bus_op list" where
  "example_ops =
     [Error_raised example_error, Error_raised example_error, Subscribe 30 31,
      Error_cleared example_error, Error_cleared example_error, Error_raised example_error]"

definition unknown_error :: Error where
  "unknown_error = example_error\<lparr>type := ''evse_manager/Unheard''\<rparr>"

text \<open>
  A configuration with the modules \<open>a\<close> (a binary), \<open>b\<close> (a JavaScript module), \<open>s\<close>
  (standalone) and \<open>x\<close> (ignored), the surroundings in which the manager starts it, the
  state of the manager before and after the loop of \<open>start_modules\<close>, the ready messages
  of \<open>a\<close>, \<open>b\<close> and \<open>s\<close> in that order, and the state after them.
\<close>

definition example_env :: surroundings where
  "example_env =
     \<lparr>modules_dir = ''/usr/libexec/everest/modules'',
      mqtt_everest_prefix = ''everest/'',
      printable_identifier = (\<lambda>module_name. module_name),
      mqtt_module_prefix = (\<lambda>module_name. ''everest/modules/'' @ module_name),
      fs_exists = (\<lambda>p. p \<in> set [''/usr/libexec/everest/modules/Store/Store'',
                                   ''/usr/libexec/everest/modules/Store/index.js'',
                                   ''/usr/libexec/everest/modules/JsPanel/index.js'',
                                   ''/usr/libexec/everest/modules/JsPanel/module.py'',
                                   ''/usr/libexec/everest/modules/PyDriver/module.py'']),
      fs_canonical = (\<lambda>p. p),
      max_pipe_message_size = 1024,
      create = (\<lambda>info. if name info = ''a'' then Create_parent \<lparr>fd = 5, pid = 101\<rparr> (Read_data [])
                        else Create_parent \<lparr>fd = 6, pid = 102\<rparr> (Read_data [])),
      kill = (\<lambda>p s. if p = 102 \<and> s = SIGTERM then - 1 else 0)\<rparr>"

definition example_config :: "(string \<times> json) list" where
  "example_config =
     [(''a'', JObject [(''module'', JString ''Store'')]),
      (''b'', JObject [(''capabilities'', JArray [JString ''cap_net_admin'']),
                      (''module'', JString ''JsPanel'')]),
      (''s'', JObject [(''module'', JString ''PyDriver''), (''standalone'', JBool True)]),
      (''x'', JObject [(''module'', JString ''Missing'')])]"

definition fresh_manager :: manager where
  "fresh_manager = \<lparr>modules_ready = [], module_handles = [], modules_started = False, effects = []\<rparr>"

definition started_manager :: manager where
  "started_manager =
     \<lparr>modules_ready =
        [(''a'', \<lparr>ready = False, token = Some ''a''\<rparr>),
         (''b'', \<lparr>ready = False, token = Some ''b''\<rparr>),
         (''s'', \<lparr>ready = False, token = Some ''s''\<rparr>)],
      module_handles = [], modules_started = False,
      effects =
        [Register_handler ''everest/modules/a/ready'' (Some ''a''),
         Log Info (Wants_capabilities ''b'' [''cap_net_admin'']),
         Register_handler ''everest/modules/b/ready'' (Some ''b''),
         Register_handler ''everest/modules/s/ready'' (Some ''s''),
         Log Info (Not_starting_standalone_module ''s''),
         Log Info (Ignoring_module ''x'')]\<rparr>"

definition example_to_spawn :: "ModuleStartInfo list" where
  "example_to_spawn =
     [\<lparr>name = ''a'', printable_name = ''a'', language = cpp,
       path = ''/usr/libexec/everest/modules/Store/Store'', capabilities = []\<rparr>,
      \<lparr>name = ''b'', printable_name = ''b'', language = javascript,
       path = ''/usr/libexec/everest/modules/JsPanel/index.js'', capabilities = [''cap_net_admin'']\<rparr>]"







text \<open>
  The state in which the start of \<open>example_config\<close> ends when \<open>x\<close> is not ignored; the
  item of the module \<open>x\<close>, whose type has no file in the modules directory; and the item of
  the module \<open>s\<close>, a Python module.
\<close>

definition failed_start_manager :: manager where
  "failed_start_manager =
     \<lparr>modules_ready = modules_ready started_manager @ [(''x'', \<lparr>ready = False, token = Some ''x''\<rparr>)],
      module_handles = [], modules_started = False,
      effects = butlast (effects started_manager) @
        [Register_handler ''everest/modules/x/ready'' (Some ''x'')]\<rparr>"

definition missing_item :: "string \<times> json" where
  "missing_item = (''x'', JObject [(''module'', JString ''Missing'')])"

definition python_item :: "string \<times> json" where
  "python_item = (''s'', JObject [(''module'', JString ''PyDriver''), (''standalone'', JBool True)])"



text \<open>
  The manager with the children \<open>a\<close> (process 101) and \<open>b\<close> (process 102) running, and the
  manager after process 101 has exited with status 9. In \<open>example_env\<close> the call of
  \<^verbatim>\<open>kill\<close> with \<open>SIGTERM\<close> fails for process 102.
\<close>

definition running_manager :: manager where
  "running_manager =
     started_manager\<lparr>module_handles := [(101, ''a''), (102, ''b'')], modules_started := True\<rparr>"

definition stopped_manager :: manager where
  "stopped_manager =
     \<lparr>modules_ready = [], module_handles = [(102, ''b'')], modules_started = False,
      effects = effects started_manager @
        [Log Critical (Module_exited_terminating_all ''a'' 101 9),
         Unregister_handler ''everest/modules/a/ready'' (Some ''a''),
         Unregister_handler ''everest/modules/b/ready'' (Some ''b''),
         Unregister_handler ''everest/modules/s/ready'' (Some ''s''),
         Kill 102 SIGTERM,
         Log Critical (Sigterm_failed ''b'' 102 (- 1)),
         Kill 102 SIGKILL,
         Log Info (Sigkill_succeeded ''b'' 102),
         Log Critical Exiting_manager]\<rparr>"

text \<open>
  A constructor that keeps its arguments, a process in which \<open>get_instance\<close> has not been
  called, and the process after a first call for the module \<open>evse\<close>.
\<close>

definition example_ctor ::
  "string \<Rightarrow> json \<Rightarrow> bool \<Rightarrow> string \<Rightarrow> string \<Rightarrow> exception + string \<times> bool \<times> string \<times> string" where
  "example_ctor module_id' config validate address port = Inr (module_id', validate, address, port)"

definition fresh_process :: "(json, string \<times> bool \<times> string \<times> string) process" where
  "fresh_process = \<lparr>static_instance = None, constructed_with = []\<rparr>"

definition first_process :: "(json, string \<times> bool \<times> string \<times> string) process" where
  "first_process =
     \<lparr>static_instance = Some (''evse'', True, ''localhost'', ''1883''),
      constructed_with = [(''evse'', JNull, True, ''localhost'', ''1883'')]\<rparr>"

text \<open>
  A constructor that throws when the configuration is \<^verbatim>\<open>null\<close> and keeps its arguments
  otherwise, and the process after a first call whose constructor threw.
\<close>

definition picky_ctor ::
  "string \<Rightarrow> json \<Rightarrow> bool \<Rightarrow> string \<Rightarrow> string \<Rightarrow> exception + string \<times> bool \<times> string \<times> string" where
  "picky_ctor module_id' config validate address port =
     (if config = JNull then Inl Json_type_error else Inr (module_id', validate, address, port))"

definition failed_process :: "(json, string \<times> bool \<times> string \<times> string) process" where
  "failed_process =
     \<lparr>static_instance = None, constructed_with = [(''evse'', JNull, True, ''localhost'', ''1883'')]\<rparr>"

section \<open>Properties of the error bus\<close>

lemma get_errors_add_error:
  "get_errors (add_error db e) (identity_filters e) = get_errors db (identity_filters e) @ [e]"
  by (simp add: get_errors_def add_error_def identity_filters_def)

lemma for_each_subscription_enumerate:
  "for_each_subscription m error i subs =
     map (\<lambda>(j, sub). Invoke j m (case m of Raise_callback \<Rightarrow> callback sub | Clear_callback \<Rightarrow> clear_callback sub) error)
         (enumerate i subs)"
  by (induction subs arbitrary: i) simp_all

lemma passes_identity:
  "list_all (\<lambda>f. passes f x) (identity_filters e) = (identity x = identity e)"
  by (auto simp: identity_filters_def identity_def)

lemma get_errors_identity:
  "get_errors db (identity_filters e) = filter (\<lambda>x. identity x = identity e) db"
  by (simp add: get_errors_def passes_identity)

text \<open>
  Claim C3. For a raised error whose type is known: when the database of the active errors
  holds an error of the same identity (type, sub type, origin), \<open>on_error_raised\<close> writes
  a diagnostic and changes neither the database nor the list of calls; when it holds no
  such error, \<open>on_error_raised\<close> adds the error to the database and calls the raise
  callback of every subscriber, from the first subscription to the last.
\<close>

theorem on_error_raised_known_type:
  assumes "has (error_type_map this) (type error)"
  shows "((\<exists>x \<in> set (database this). identity x = identity error) \<longrightarrow>
            on_error_raised error this =
              this\<lparr>evlog := evlog this @ [Already_raised (type error) (sub_type error)]\<rparr>
            \<and> database (on_error_raised error this) = database this
            \<and> invoked (on_error_raised error this) = invoked this)
       \<and> ((\<forall>x \<in> set (database this). identity x \<noteq> identity error) \<longrightarrow>
            database (on_error_raised error this) = database this @ [error]
            \<and> evlog (on_error_raised error this) = evlog this
            \<and> invoked (on_error_raised error this) =
                invoked this @ map (\<lambda>(i, sub). Invoke i Raise_callback (callback sub) error)
                                   (enumerate 0 (subscriptions this)))"
proof (cases "\<exists>x \<in> set (database this). identity x = identity error")
  case False
  then have none: "get_errors (database this) (identity_filters error) = []"
    by (simp add: get_errors_identity filter_empty_conv)
  then have one: "get_errors (add_error (database this) error) (identity_filters error) = [error]"
    by (simp add: get_errors_add_error)
  have "database (on_error_raised error this) = database this @ [error]
      \<and> evlog (on_error_raised error this) = evlog this
      \<and> invoked (on_error_raised error this) =
          invoked this @ map (\<lambda>(i, sub). Invoke i Raise_callback (callback sub) error)
                             (enumerate 0 (subscriptions this))"
    using assms none one
    by (simp add: on_error_raised_def Let_def for_each_subscription_enumerate)
      (simp add: add_error_def)
  with False show ?thesis
    by simp
next
  case True
  then have some: "get_errors (database this) (identity_filters error) \<noteq> []"
    by (simp add: get_errors_identity filter_empty_conv)
  have "on_error_raised error this =
          this\<lparr>evlog := evlog this @ [Already_raised (type error) (sub_type error)]\<rparr>"
    using assms some by (simp add: on_error_raised_def)
  moreover from True have "\<not> (\<forall>x \<in> set (database this). identity x \<noteq> identity error)"
    by simp
  ultimately show ?thesis
    by simp
qed

text \<open>
  The theorem on \<open>example_bus\<close>: the raise of \<open>example_error\<close> is delivered to both
  subscribers; then the raise of \<open>sibling_error\<close>, which has the type and the origin of
  \<open>example_error\<close> and another sub type, is delivered too; then the raise of
  \<open>repeated_error\<close>, which has the identity of \<open>example_error\<close> and another message, is
  ignored.
\<close>

theorem on_error_raised_known_type_witness:
  "has (error_type_map example_bus) (type example_error)
   \<and> database example_bus = []
   \<and> database (on_error_raised example_error example_bus) = [example_error]
   \<and> invoked (on_error_raised example_error example_bus) =
       [Invoke 0 Raise_callback 10 example_error, Invoke 1 Raise_callback 20 example_error]
   \<and> type sibling_error = type example_error
   \<and> identity sibling_error \<notin> identity ` set (database (on_error_raised example_error example_bus))
   \<and> database (on_error_raised sibling_error (on_error_raised example_error example_bus)) =
       [example_error, sibling_error]
   \<and> evlog (on_error_raised sibling_error (on_error_raised example_error example_bus)) = []
   \<and> invoked (on_error_raised sibling_error (on_error_raised example_error example_bus)) =
       [Invoke 0 Raise_callback 10 example_error, Invoke 1 Raise_callback 20 example_error,
        Invoke 0 Raise_callback 10 sibling_error, Invoke 1 Raise_callback 20 sibling_error]
   \<and> repeated_error \<noteq> example_error
   \<and> (\<exists>x \<in> set (database (on_error_raised sibling_error (on_error_raised example_error example_bus))).
         identity x = identity repeated_error)
   \<and> on_error_raised repeated_error
         (on_error_raised sibling_error (on_error_raised example_error example_bus)) =
       (on_error_raised sibling_error (on_error_raised example_error example_bus))
         \<lparr>evlog := [Already_raised ''evse_manager/Inoperative'' ''a'']\<rparr>"
proof -
  let ?bus1 = "on_error_raised example_error example_bus"
  let ?bus2 = "on_error_raised sibling_error ?bus1"
  have known: "has (error_type_map example_bus) (type example_error)"
    by (simp add: has_def example_bus_def example_error_def)
  have empty: "database example_bus = []"
    by (simp add: example_bus_def)
  then have inactive: "\<forall>x \<in> set (database example_bus). identity x \<noteq> identity example_error"
    by simp
  from on_error_raised_known_type [OF known] inactive
  have first: "database ?bus1 = [example_error]" "evlog ?bus1 = []"
    "invoked ?bus1 = [Invoke 0 Raise_callback 10 example_error, Invoke 1 Raise_callback 20 example_error]"
    by (simp_all add: example_bus_def)
  have maps: "error_type_map ?bus1 = error_type_map example_bus"
    "subscriptions ?bus1 = subscriptions example_bus"
    by (simp_all add: on_error_raised_def Let_def)
  have same_type: "type sibling_error = type example_error"
    by (simp add: sibling_error_def)
  with known maps have known1: "has (error_type_map ?bus1) (type sibling_error)"
    by simp
  have other: "identity sibling_error \<notin> identity ` set (database ?bus1)"
    unfolding first by (simp add: identity_def sibling_error_def example_error_def)
  then have inactive1: "\<forall>x \<in> set (database ?bus1). identity x \<noteq> identity sibling_error"
    by (simp add: first)
  from on_error_raised_known_type [OF known1] inactive1
  have step: "database ?bus2 = database ?bus1 @ [sibling_error]" "evlog ?bus2 = evlog ?bus1"
    "invoked ?bus2 =
       invoked ?bus1 @ map (\<lambda>(i, sub). Invoke i Raise_callback (callback sub) sibling_error)
                           (enumerate 0 (subscriptions ?bus1))"
    by simp_all
  have subs: "subscriptions example_bus =
      [\<lparr>callback = 10, clear_callback = 11\<rparr>, \<lparr>callback = 20, clear_callback = 21\<rparr>]"
    by (simp add: example_bus_def)
  from step have second: "database ?bus2 = [example_error, sibling_error]" "evlog ?bus2 = []"
    "invoked ?bus2 =
       [Invoke 0 Raise_callback 10 example_error, Invoke 1 Raise_callback 20 example_error,
        Invoke 0 Raise_callback 10 sibling_error, Invoke 1 Raise_callback 20 sibling_error]"
    unfolding first maps subs by simp_all
  have maps2: "error_type_map ?bus2 = error_type_map example_bus"
    by (simp add: on_error_raised_def Let_def)
  have "type repeated_error = type example_error"
    by (simp add: repeated_error_def)
  with known maps2 have known2: "has (error_type_map ?bus2) (type repeated_error)"
    by simp
  have differs: "repeated_error \<noteq> example_error"
    by (simp add: repeated_error_def example_error_def)
  have active2: "\<exists>x \<in> set (database ?bus2). identity x = identity repeated_error"
    unfolding second by (simp add: identity_def repeated_error_def example_error_def)
  have names: "type repeated_error = ''evse_manager/Inoperative''" "sub_type repeated_error = ''a''"
    by (simp_all add: repeated_error_def example_error_def)
  from on_error_raised_known_type [OF known2] active2
  have "on_error_raised repeated_error ?bus2 =
          ?bus2\<lparr>evlog := evlog ?bus2 @ [Already_raised (type repeated_error) (sub_type repeated_error)]\<rparr>"
    by simp
  then have third: "on_error_raised repeated_error ?bus2 =
          ?bus2\<lparr>evlog := [Already_raised ''evse_manager/Inoperative'' ''a'']\<rparr>"
    unfolding second names by simp
  from known empty first same_type other second differs active2 third show ?thesis
    by simp
qed

lemma remove_errors_identity:
  "remove_errors db (identity_filters e) =
     (filter (\<lambda>x. identity x = identity e) db, filter (\<lambda>x. identity x \<noteq> identity e) db)"
  by (simp add: remove_errors_def get_errors_identity passes_identity)

lemma delivered_to_append:
  "delivered_to n idn (xs @ ys) = delivered_to n idn xs @ delivered_to n idn ys"
  by (induction xs rule: delivered_to.induct) simp_all

lemma delivered_to_for_each:
  "delivered_to n idn (for_each_subscription m e i subs) =
     (if identity e = idn \<and> i \<le> n \<and> n < i + length subs then [m] else [])"
  by (induction subs arbitrary: i) auto

lemma raise_clear_prefix_snoc:
  "raise_clear_prefix (ms @ [m]) =
     (raise_clear_prefix ms \<and> m = (if even (length ms) then Raise_callback else Clear_callback))"
  by (induction ms rule: raise_clear_prefix.induct) auto

lemma bus_inv_subscribe:
  "bus_inv base n error this \<Longrightarrow> bus_inv base n error (subscribe_global_all_errors cb ccb this)"
  by (simp add: bus_inv_def subscribe_global_all_errors_def Let_def)

lemma bus_inv_raised:
  assumes "bus_inv base n error this"
  shows "bus_inv base n error (on_error_raised e this)"
proof (cases "has (error_type_map this) (type e) \<and> get_errors (database this) (identity_filters e) = []")
  case False
  with assms show ?thesis
    by (auto simp: bus_inv_def on_error_raised_def Let_def)
next
  case True
  then have one: "length (get_errors (add_error (database this) e) (identity_filters e)) = 1"
    by (simp add: get_errors_add_error)
  show ?thesis
  proof (cases "identity e = identity error")
    case same: True
    with True have inactive: "get_errors (database this) (identity_filters error) = []"
      by (simp add: get_errors_identity)
    with assms True one same show ?thesis
      by (simp add: bus_inv_def on_error_raised_def Let_def delivered_to_append
          delivered_to_for_each raise_clear_prefix_snoc)
        (simp add: get_errors_identity add_error_def)
  next
    case other: False
    with assms True one show ?thesis
      by (simp add: bus_inv_def on_error_raised_def Let_def delivered_to_append
          delivered_to_for_each)
        (simp add: get_errors_identity add_error_def)
  qed
qed

lemma bus_inv_cleared:
  assumes "bus_inv base n error this"
  shows "bus_inv base n error (on_error_cleared e this)"
proof (cases "has (error_type_map this) (type e) \<and> get_errors (database this) (identity_filters e) \<noteq> []")
  case False
  with assms show ?thesis
    by (auto simp: bus_inv_def on_error_cleared_def Let_def)
next
  case True
  show ?thesis
  proof (cases "identity e = identity error")
    case same: True
    then have eq: "get_errors db (identity_filters e) = get_errors db (identity_filters error)" for db
      by (simp add: get_errors_identity)
    from assms have le: "length (get_errors (database this) (identity_filters error)) \<le> 1"
      by (simp add: bus_inv_def Let_def)
    with True eq have len1: "length (filter (\<lambda>x. identity x = identity error) (database this)) = 1"
      by (cases "filter (\<lambda>x. identity x = identity error) (database this)")
        (simp_all add: get_errors_identity)
    from assms True same len1 show ?thesis
      by (simp add: bus_inv_def on_error_cleared_def Let_def remove_errors_identity
          get_errors_identity delivered_to_append delivered_to_for_each raise_clear_prefix_snoc
          split: prod.splits)
  next
    case other: False
    then have keep: "filter (\<lambda>x. identity x = identity error) (filter (\<lambda>x. identity x \<noteq> identity e) db)
        = filter (\<lambda>x. identity x = identity error) db" for db
      by (induction db) auto
    from assms True other keep show ?thesis
      by (simp add: bus_inv_def on_error_cleared_def Let_def remove_errors_identity
          get_errors_identity delivered_to_append delivered_to_for_each
          split: prod.splits)
  qed
qed

lemma bus_inv_step: "bus_inv base n error this \<Longrightarrow> bus_inv base n error (bus_step op this)"
  by (cases op) (simp_all add: bus_inv_subscribe bus_inv_raised bus_inv_cleared)

lemma bus_inv_run: "bus_inv base n error this \<Longrightarrow> bus_inv base n error (bus_run ops this)"
  unfolding bus_run_def
  by (induction ops arbitrary: this) (simp_all add: bus_inv_step)


text \<open>
  Claim C4, as amended. For every error identity and every subscriber that is registered
  at a moment when the identity is not active, the events delivered to that subscriber for
  that identity from that moment on are a prefix of raise, clear, raise, clear, ...; a
  clear is delivered only for an identity that is active, a raise of an active identity is
  not delivered, and an event whose type the error type map does not have is not delivered
  and does not change the database.
\<close>

theorem delivered_events_alternate:
  assumes "get_errors (database this) (identity_filters error) = []"
      and "n < length (subscriptions this)"
  shows "raise_clear_prefix
           (delivered_to n (identity error)
              (drop (length (invoked this)) (invoked (bus_run ops this))))
       \<and> (invoked (on_error_cleared e that) \<noteq> invoked that \<longrightarrow>
            get_errors (database that) (identity_filters e) \<noteq> [])
       \<and> (get_errors (database that) (identity_filters e) \<noteq> [] \<longrightarrow>
            invoked (on_error_raised e that) = invoked that)
       \<and> (\<not> has (error_type_map that) (type e) \<longrightarrow>
            invoked (on_error_raised e that) = invoked that
            \<and> invoked (on_error_cleared e that) = invoked that
            \<and> database (on_error_raised e that) = database that
            \<and> database (on_error_cleared e that) = database that)"
proof -
  from assms have "bus_inv (length (invoked this)) n error this"
    by (simp add: bus_inv_def)
  then have "bus_inv (length (invoked this)) n error (bus_run ops this)"
    by (rule bus_inv_run)
  then have alt: "raise_clear_prefix
           (delivered_to n (identity error)
              (drop (length (invoked this)) (invoked (bus_run ops this))))"
    by (simp add: bus_inv_def Let_def)
  have clr: "invoked (on_error_cleared e that) \<noteq> invoked that \<longrightarrow>
            get_errors (database that) (identity_filters e) \<noteq> []"
    by (auto simp: on_error_cleared_def)
  have dup: "get_errors (database that) (identity_filters e) \<noteq> [] \<longrightarrow>
            invoked (on_error_raised e that) = invoked that"
    by (simp add: on_error_raised_def)
  have unk: "\<not> has (error_type_map that) (type e) \<longrightarrow>
            invoked (on_error_raised e that) = invoked that
            \<and> invoked (on_error_cleared e that) = invoked that
            \<and> database (on_error_raised e that) = database that
            \<and> database (on_error_cleared e that) = database that"
    by (simp add: on_error_raised_def on_error_cleared_def)
  from alt clr dup unk show ?thesis by blast
qed

lemma example_run:
  "invoked (bus_run example_ops example_bus) =
     [Invoke 0 Raise_callback 10 example_error, Invoke 1 Raise_callback 20 example_error,
      Invoke 0 Clear_callback 11 example_error, Invoke 1 Clear_callback 21 example_error,
      Invoke 2 Clear_callback 31 example_error,
      Invoke 0 Raise_callback 10 example_error, Invoke 1 Raise_callback 20 example_error,
      Invoke 2 Raise_callback 30 example_error]"
  by (simp add: bus_run_def example_ops_def example_bus_def on_error_raised_def on_error_cleared_def
      subscribe_global_all_errors_def has_def get_errors_def remove_errors_def add_error_def
      identity_filters_def example_error_def Let_def)

text \<open>
  The theorem on \<open>example_bus\<close>, for its second subscriber and the run \<open>example_ops\<close>.
\<close>

theorem delivered_events_alternate_witness:
  "get_errors (database example_bus) (identity_filters example_error) = []
   \<and> 1 < length (subscriptions example_bus)
   \<and> delivered_to 1 (identity example_error) (invoked (bus_run example_ops example_bus)) =
       [Raise_callback, Clear_callback, Raise_callback]
   \<and> raise_clear_prefix (delivered_to 1 (identity example_error) (invoked (bus_run example_ops example_bus)))
   \<and> invoked (on_error_cleared example_error (on_error_raised example_error example_bus)) \<noteq>
       invoked (on_error_raised example_error example_bus)
   \<and> get_errors (database (on_error_raised example_error example_bus)) (identity_filters example_error) \<noteq> []
   \<and> invoked (on_error_raised example_error (on_error_raised example_error example_bus)) =
       invoked (on_error_raised example_error example_bus)
   \<and> \<not> has (error_type_map example_bus) (type unknown_error)
   \<and> invoked (on_error_raised unknown_error example_bus) = []
   \<and> invoked (on_error_cleared unknown_error example_bus) = []"
proof -
  let ?bus1 = "on_error_raised example_error example_bus"
  have inactive: "get_errors (database example_bus) (identity_filters example_error) = []"
    by (simp add: get_errors_def example_bus_def)
  have sub: "1 < length (subscriptions example_bus)"
    by (simp add: example_bus_def)
  have seq: "delivered_to 1 (identity example_error) (invoked (bus_run example_ops example_bus)) =
       [Raise_callback, Clear_callback, Raise_callback]"
    by (simp add: example_run)
  have cleared: "invoked (on_error_cleared example_error ?bus1) \<noteq> invoked ?bus1"
    by (simp add: example_bus_def on_error_raised_def on_error_cleared_def
      has_def get_errors_def remove_errors_def add_error_def
      identity_filters_def example_error_def Let_def)
  have unknown: "\<not> has (error_type_map example_bus) (type unknown_error)"
    by (simp add: has_def example_bus_def unknown_error_def)
  have empty: "invoked example_bus = []"
    by (simp add: example_bus_def)
  note inst = delivered_events_alternate [OF inactive sub, of example_ops]
  from inst [of example_error ?bus1] have alt:
    "raise_clear_prefix (delivered_to 1 (identity example_error) (invoked (bus_run example_ops example_bus)))"
    by (simp add: empty)
  from inst [of example_error ?bus1] cleared
  have active: "get_errors (database ?bus1) (identity_filters example_error) \<noteq> []"
    by blast
  with inst [of example_error ?bus1]
  have dup: "invoked (on_error_raised example_error ?bus1) = invoked ?bus1"
    by blast
  from inst [of unknown_error example_bus] unknown empty
  have unk: "invoked (on_error_raised unknown_error example_bus) = []"
    "invoked (on_error_cleared unknown_error example_bus) = []"
    by simp_all
  from inactive sub seq alt cleared active dup unknown unk show ?thesis
    by blast
qed

text \<open>
  Claim C4 as it is stated fails for a subscriber that registers while an error is active:
  in the run \<open>example_ops\<close> the third subscriber registers after the raise of
  \<open>example_error\<close>, and the first event delivered to it is the clear.
\<close>

theorem late_subscriber_sees_clear_first:
  "delivered_to 2 (identity example_error) (invoked (bus_run example_ops example_bus)) =
     [Clear_callback, Raise_callback]
   \<and> \<not> raise_clear_prefix
         (delivered_to 2 (identity example_error) (invoked (bus_run example_ops example_bus)))"
  by (simp add: example_run)

lemma bus_run_subscribe:
  "subscriptions (bus_run (map (\<lambda>(cb, clear_cb). Subscribe cb clear_cb) subs) this) =
     subscriptions this @ map (\<lambda>(cb, clear_cb). \<lparr>callback = cb, clear_callback = clear_cb\<rparr>) subs"
  unfolding bus_run_def
  by (induction subs arbitrary: this) (auto simp: subscribe_global_all_errors_def)

text \<open>
  Claim C10. Subscribing appends to the list of subscriptions and neither handler changes
  that list, so the list is in the order of registration; for a delivered raise or clear
  each subscription is called once, from the first position to the last, and for an event
  that is not delivered no subscription is called.
\<close>

theorem subscribers_called_once_in_order:
  "subscriptions (subscribe_global_all_errors cb clear_cb this) =
     subscriptions this @ [\<lparr>callback = cb, clear_callback = clear_cb\<rparr>]
   \<and> subscriptions (bus_run (map (\<lambda>(cb, clear_cb). Subscribe cb clear_cb) subs) this) =
       subscriptions this @ map (\<lambda>(cb, clear_cb). \<lparr>callback = cb, clear_callback = clear_cb\<rparr>) subs
   \<and> subscriptions (on_error_raised error this) = subscriptions this
   \<and> subscriptions (on_error_cleared error this) = subscriptions this
   \<and> invoked (on_error_raised error this) =
       invoked this @
         (if has (error_type_map this) (type error)
             \<and> get_errors (database this) (identity_filters error) = []
          then map (\<lambda>(i, sub). Invoke i Raise_callback (callback sub) error)
                   (enumerate 0 (subscriptions this))
          else [])
   \<and> invoked (on_error_cleared error this) =
       invoked this @
         (if has (error_type_map this) (type error)
             \<and> length (get_errors (database this) (identity_filters error)) = 1
          then map (\<lambda>(i, sub). Invoke i Clear_callback (clear_callback sub) error)
                   (enumerate 0 (subscriptions this))
          else [])"
proof -
  have a: "subscriptions (subscribe_global_all_errors cb clear_cb this) =
     subscriptions this @ [\<lparr>callback = cb, clear_callback = clear_cb\<rparr>]"
    by (simp add: subscribe_global_all_errors_def)
  have b: "subscriptions (on_error_raised error this) = subscriptions this"
    by (simp add: on_error_raised_def Let_def)
  have c: "subscriptions (on_error_cleared error this) = subscriptions this"
    by (simp add: on_error_cleared_def Let_def split: prod.splits)
  have d: "invoked (on_error_raised error this) =
       invoked this @
         (if has (error_type_map this) (type error)
             \<and> get_errors (database this) (identity_filters error) = []
          then map (\<lambda>(i, sub). Invoke i Raise_callback (callback sub) error)
                   (enumerate 0 (subscriptions this))
          else [])"
    by (simp add: on_error_raised_def Let_def get_errors_add_error for_each_subscription_enumerate)
  have e: "invoked (on_error_cleared error this) =
       invoked this @
         (if has (error_type_map this) (type error)
             \<and> length (get_errors (database this) (identity_filters error)) = 1
          then map (\<lambda>(i, sub). Invoke i Clear_callback (clear_callback sub) error)
                   (enumerate 0 (subscriptions this))
          else [])"
    by (cases "get_errors (database this) (identity_filters error)")
      (auto simp: on_error_cleared_def Let_def remove_errors_def for_each_subscription_enumerate)
  from a b c d e bus_run_subscribe show ?thesis by blast
qed

section \<open>Properties of the startup barrier\<close>





lemma keys_set_ready: "map fst (set_ready m b tbl) = map fst tbl"
  by (simp add: set_ready_def comp_def)





lemma global_ready_count_append:
  "global_ready_count pfx (es @ es') = global_ready_count pfx es + global_ready_count pfx es'"
  by (simp add: global_ready_count_def)

text \<open>One call of the handler.\<close>

lemma module_ready_handler_Inr:
  assumes "module_ready_handler sa pfx m payload st = Inr st'"
  shows "\<exists>b. payload = JBool b \<and> m \<in> fst ` set (modules_ready st)
           \<and> modules_ready st' = set_ready m b (modules_ready st)
           \<and> global_ready_count pfx (effects st') =
               global_ready_count pfx (effects st) +
                 (if list_all (\<lambda>element. ready (snd element)) (modules_ready st') then 1 else 0)"
proof (cases payload)
  case (JBool b)
  with assms obtain i where i: "map_of (modules_ready st) m = Some i"
    by (cases "map_of (modules_ready st) m") (auto simp: module_ready_handler_def)
  then have key: "m \<in> fst ` set (modules_ready st)"
    by (metis map_of_eq_None_iff option.distinct(1))
  from assms JBool i have
    "modules_ready st' = set_ready m b (modules_ready st)
     \<and> global_ready_count pfx (effects st') =
               global_ready_count pfx (effects st) +
                 (if list_all (\<lambda>element. ready (snd element)) (modules_ready st') then 1 else 0)"
    by (auto simp: module_ready_handler_def Let_def emit_def global_ready_count_def
        split: if_splits)
  with JBool key show ?thesis by blast
qed (use assms in \<open>simp_all add: module_ready_handler_def\<close>)



text \<open>A run: the keys stay, the count grows, and a publication needs every flag set.\<close>

lemma ready_messages_keys:
  "ready_messages sa pfx msgs st = Inr st' \<Longrightarrow> map fst (modules_ready st') = map fst (modules_ready st)"
proof (induction msgs arbitrary: st)
  case Nil
  then show ?case by simp
next
  case (Cons msg msgs)
  then obtain st1 where h: "module_ready_handler sa pfx (fst msg) (snd msg) st = Inr st1"
      and r: "ready_messages sa pfx msgs st1 = Inr st'"
    by (auto split: sum.splits)
  from module_ready_handler_Inr [OF h] have "map fst (modules_ready st1) = map fst (modules_ready st)"
    by (auto simp: keys_set_ready)
  with Cons.IH [OF r] show ?case by simp
qed

lemma ready_messages_count_mono:
  "ready_messages sa pfx msgs st = Inr st' \<Longrightarrow>
     global_ready_count pfx (effects st) \<le> global_ready_count pfx (effects st')"
proof (induction msgs arbitrary: st)
  case Nil
  then show ?case by simp
next
  case (Cons msg msgs)
  then obtain st1 where h: "module_ready_handler sa pfx (fst msg) (snd msg) st = Inr st1"
      and r: "ready_messages sa pfx msgs st1 = Inr st'"
    by (auto split: sum.splits)
  from module_ready_handler_Inr [OF h]
  have "global_ready_count pfx (effects st) \<le> global_ready_count pfx (effects st1)"
    by auto
  with Cons.IH [OF r] show ?case by simp
qed













lemma example_start:
  "start_modules_loop example_env [''x''] [''s''] example_config (fresh_manager, []) =
     Inr (started_manager, example_to_spawn)"
  by (simp add: example_config_def start_module_def module_type_of_def capabilities_of_def
      json_string_def json_elements_def probe_module_def path_append_def emplace_def
      set_token_def emit_def example_env_def fresh_manager_def started_manager_def
      example_to_spawn_def Let_def)





















text \<open>
  Claim C7: with the manager-started modules \<open>a\<close> and \<open>b\<close> and the standalone module
  \<open>s\<close>, the status \<open>WAITING_FOR_STANDALONE_MODULES\<close> should be written exactly when
  \<open>a\<close> and \<open>b\<close> are ready and \<open>s\<close> is not. The handler counts every ready module, the
  standalone ones too: after the ready messages of \<open>a\<close> and \<open>s\<close> it writes that status
  although \<open>b\<close>, which the manager starts, is not ready and \<open>s\<close> is.
\<close>

theorem waiting_for_standalone_while_spawned_module_not_ready:
  "start_modules_loop example_env [''x''] [''s''] example_config (fresh_manager, []) =
     Inr (started_manager, example_to_spawn)
   \<and> map name example_to_spawn = [''a'', ''b'']
   \<and> ready_messages [''s''] ''everest/'' [(''a'', JBool True), (''s'', JBool True)] started_manager =
       Inr (started_manager
              \<lparr>modules_ready :=
                 [(''a'', \<lparr>ready = True, token = Some ''a''\<rparr>),
                  (''b'', \<lparr>ready = False, token = Some ''b''\<rparr>),
                  (''s'', \<lparr>ready = True, token = Some ''s''\<rparr>)],
               effects := effects started_manager @
                 [Log Info (Standalone_module_initialized ''s''),
                  Log Info Waiting_for_standalone_modules,
                  Status_update WAITING_FOR_STANDALONE_MODULES]\<rparr>)"
proof -
  have "map name example_to_spawn = [''a'', ''b'']"
    by (simp add: example_to_spawn_def)
  moreover have "ready_messages [''s''] ''everest/'' [(''a'', JBool True), (''s'', JBool True)] started_manager =
       Inr (started_manager
              \<lparr>modules_ready :=
                 [(''a'', \<lparr>ready = True, token = Some ''a''\<rparr>),
                  (''b'', \<lparr>ready = False, token = Some ''b''\<rparr>),
                  (''s'', \<lparr>ready = True, token = Some ''s''\<rparr>)],
               effects := effects started_manager @
                 [Log Info (Standalone_module_initialized ''s''),
                  Log Info Waiting_for_standalone_modules,
                  Status_update WAITING_FOR_STANDALONE_MODULES]\<rparr>)"
    by (simp add: started_manager_def module_ready_handler_def set_ready_def emit_def Let_def)
  ultimately show ?thesis using example_start by simp
qed

section \<open>Properties of the supervisor\<close>

lemma start_modules_loop_append:
  "start_modules_loop env ig sa (xs @ ys) acc =
     (case start_modules_loop env ig sa xs acc of
        Inl e \<Rightarrow> Inl e
      | Inr acc' \<Rightarrow> start_modules_loop env ig sa ys acc')"
  by (induction xs arbitrary: acc) (simp_all split: sum.splits)

lemma start_module_to_spawn:
  assumes "fst item \<notin> set ig" and "fst item \<notin> set sa"
      and "module_type_of (snd item) = Inr t"
      and "capabilities_of (snd item) = Inr caps"
  shows "start_module env ig sa item (st, to_spawn) =
           (let registered =
                  emit ((if caps \<noteq> [] then [Log Info (Wants_capabilities (fst item) caps)] else []) @
                        [Register_handler (mqtt_module_prefix env (fst item) @ ''/ready'') (Some (fst item))])
                    (st\<lparr>modules_ready :=
                          set_token (fst item) (Some (fst item))
                            (emplace (fst item) \<lparr>ready = False, token = None\<rparr> (modules_ready st))\<rparr>)
            in case probe_module env (fst item) t caps of
                 Inl e \<Rightarrow> Inl (e, registered)
               | Inr info \<Rightarrow> Inr (registered, to_spawn @ [info]))"
  using assms
  by (cases "caps = []") (simp_all add: start_module_def Let_def emit_def split: sum.splits)

lemma probe_module_cases:
  "probe_module env n t caps =
     (if fs_exists env (path_append (path_append (modules_dir env) t) t)
      then Inr \<lparr>name = n, printable_name = printable_identifier env n, language = cpp,
                path = path_append (path_append (modules_dir env) t) t, capabilities = caps\<rparr>
      else if fs_exists env (path_append (path_append (modules_dir env) t) ''index.js'')
      then Inr \<lparr>name = n, printable_name = printable_identifier env n, language = javascript,
                path = fs_canonical env (path_append (path_append (modules_dir env) t) ''index.js''),
                capabilities = caps\<rparr>
      else if fs_exists env (path_append (path_append (modules_dir env) t) ''module.py'')
      then Inr \<lparr>name = n, printable_name = printable_identifier env n, language = python,
                path = fs_canonical env (path_append (path_append (modules_dir env) t) ''module.py''),
                capabilities = caps\<rparr>
      else Inl (Module_not_found (''    py:  {}'' @ [CHR 0x0A]) n t
                  (path_append (path_append (modules_dir env) t) t)))"
  by (simp add: probe_module_def Let_def)

lemma path_append_plain:
  assumes "p \<noteq> []" "last p \<noteq> CHR ''/''" "q \<noteq> []" "hd q \<noteq> CHR ''/''"
  shows "path_append p q = p @ ''/'' @ q"
  using assms by (simp add: path_append_def)

text \<open>
  Claim C5. For a module that the manager is to spawn (it is neither ignored nor
  standalone, and its configuration names a module type), the loop of \<open>start_modules\<close>
  tries the binary path, then the JavaScript path, then the Python path: the first that
  exists gives the language and the path of the new entry of \<open>modules_to_spawn\<close>. When
  none exists the loop throws, \<open>boot\<close> ends with that exception, with the module in the
  table and its handler registered, and \<open>main\<close> returns \<open>EXIT_FAILURE\<close>. For a modules
  directory and a module type that are plain names (not empty, no separator at their ends)
  the three paths are the directory, the type and the file name \<open>type\<close>, \<open>index.js\<close> or
  \<open>module.py\<close>, joined by separators.
\<close>

theorem start_language_by_first_existing_path:
  fixes env :: surroundings and module_type :: string and item :: "string \<times> json"
    and caps :: "string list" and st :: manager
  defines "binary_path \<equiv> path_append (path_append (modules_dir env) module_type) module_type"
      and "javascript_library_path \<equiv> path_append (path_append (modules_dir env) module_type) ''index.js''"
      and "python_module_path \<equiv> path_append (path_append (modules_dir env) module_type) ''module.py''"
      and "registered \<equiv>
             emit ((if caps \<noteq> [] then [Log Info (Wants_capabilities (fst item) caps)] else []) @
                   [Register_handler (mqtt_module_prefix env (fst item) @ ''/ready'') (Some (fst item))])
               (st\<lparr>modules_ready :=
                     set_token (fst item) (Some (fst item))
                       (emplace (fst item) \<lparr>ready = False, token = None\<rparr> (modules_ready st))\<rparr>)"
  assumes spawned: "fst item \<notin> set ignored_modules" "fst item \<notin> set standalone_modules"
      and mt: "module_type_of (snd item) = Inr module_type"
      and caps: "capabilities_of (snd item) = Inr caps"
  shows "(fs_exists env binary_path \<longrightarrow>
            start_module env ignored_modules standalone_modules item (st, to_spawn) =
              Inr (registered, to_spawn @
                [\<lparr>name = fst item, printable_name = printable_identifier env (fst item),
                  language = cpp, path = binary_path, capabilities = caps\<rparr>]))
       \<and> (\<not> fs_exists env binary_path \<and> fs_exists env javascript_library_path \<longrightarrow>
            start_module env ignored_modules standalone_modules item (st, to_spawn) =
              Inr (registered, to_spawn @
                [\<lparr>name = fst item, printable_name = printable_identifier env (fst item),
                  language = javascript, path = fs_canonical env javascript_library_path,
                  capabilities = caps\<rparr>]))
       \<and> (\<not> fs_exists env binary_path \<and> \<not> fs_exists env javascript_library_path
          \<and> fs_exists env python_module_path \<longrightarrow>
            start_module env ignored_modules standalone_modules item (st, to_spawn) =
              Inr (registered, to_spawn @
                [\<lparr>name = fst item, printable_name = printable_identifier env (fst item),
                  language = python, path = fs_canonical env python_module_path,
                  capabilities = caps\<rparr>]))
       \<and> (\<not> fs_exists env binary_path \<and> \<not> fs_exists env javascript_library_path
          \<and> \<not> fs_exists env python_module_path \<longrightarrow>
            start_module env ignored_modules standalone_modules item (st, to_spawn) =
              Inl (Module_not_found (''    py:  {}'' @ [CHR 0x0A]) (fst item) module_type binary_path,
                   registered)
            \<and> (start_modules_loop env ignored_modules standalone_modules before (st0, []) =
                  Inr (st, to_spawn) \<longrightarrow>
                 boot env (before @ item # rest) ignored_modules standalone_modules waits st0 =
                   (Thrown (Module_not_found (''    py:  {}'' @ [CHR 0x0A]) (fst item) module_type
                              binary_path), registered)
                 \<and> main (fst (boot env (before @ item # rest) ignored_modules standalone_modules
                                waits st0)) = Some EXIT_FAILURE))
       \<and> (modules_dir env \<noteq> [] \<and> last (modules_dir env) \<noteq> CHR ''/'' \<and> module_type \<noteq> []
          \<and> hd module_type \<noteq> CHR ''/'' \<and> last module_type \<noteq> CHR ''/'' \<longrightarrow>
            binary_path = modules_dir env @ ''/'' @ module_type @ ''/'' @ module_type
            \<and> javascript_library_path = modules_dir env @ ''/'' @ module_type @ ''/index.js''
            \<and> python_module_path = modules_dir env @ ''/'' @ module_type @ ''/module.py'')"
proof -
  have shape: "start_module env ignored_modules standalone_modules item (st, to_spawn) =
      (case probe_module env (fst item) module_type caps of
         Inl e \<Rightarrow> Inl (e, registered)
       | Inr info \<Rightarrow> Inr (registered, to_spawn @ [info]))"
    unfolding registered_def
    by (rule start_module_to_spawn [OF spawned mt caps, of env st to_spawn, unfolded Let_def])
  have c1: "fs_exists env binary_path \<longrightarrow>
            start_module env ignored_modules standalone_modules item (st, to_spawn) =
              Inr (registered, to_spawn @
                [\<lparr>name = fst item, printable_name = printable_identifier env (fst item),
                  language = cpp, path = binary_path, capabilities = caps\<rparr>])"
    by (simp add: shape probe_module_cases binary_path_def)
  have c2: "\<not> fs_exists env binary_path \<and> fs_exists env javascript_library_path \<longrightarrow>
            start_module env ignored_modules standalone_modules item (st, to_spawn) =
              Inr (registered, to_spawn @
                [\<lparr>name = fst item, printable_name = printable_identifier env (fst item),
                  language = javascript, path = fs_canonical env javascript_library_path,
                  capabilities = caps\<rparr>])"
    by (simp add: shape probe_module_cases binary_path_def javascript_library_path_def)
  have c3: "\<not> fs_exists env binary_path \<and> \<not> fs_exists env javascript_library_path
          \<and> fs_exists env python_module_path \<longrightarrow>
            start_module env ignored_modules standalone_modules item (st, to_spawn) =
              Inr (registered, to_spawn @
                [\<lparr>name = fst item, printable_name = printable_identifier env (fst item),
                  language = python, path = fs_canonical env python_module_path,
                  capabilities = caps\<rparr>])"
    by (simp add: shape probe_module_cases binary_path_def javascript_library_path_def
        python_module_path_def)
  have c4: "start_module env ignored_modules standalone_modules item (st, to_spawn) =
              Inl (Module_not_found (''    py:  {}'' @ [CHR 0x0A]) (fst item) module_type binary_path,
                   registered)
            \<and> (start_modules_loop env ignored_modules standalone_modules before (st0, []) =
                  Inr (st, to_spawn) \<longrightarrow>
                 boot env (before @ item # rest) ignored_modules standalone_modules waits st0 =
                   (Thrown (Module_not_found (''    py:  {}'' @ [CHR 0x0A]) (fst item) module_type
                              binary_path), registered)
                 \<and> main (fst (boot env (before @ item # rest) ignored_modules standalone_modules
                                waits st0)) = Some EXIT_FAILURE)"
    if none: "\<not> fs_exists env binary_path \<and> \<not> fs_exists env javascript_library_path
          \<and> \<not> fs_exists env python_module_path"
  proof -
    let ?e = "Module_not_found (''    py:  {}'' @ [CHR 0x0A]) (fst item) module_type binary_path"
    from none have fail: "start_module env ignored_modules standalone_modules item (st, to_spawn) =
        Inl (?e, registered)"
      by (simp add: shape probe_module_cases binary_path_def javascript_library_path_def
        python_module_path_def)
    have "boot env (before @ item # rest) ignored_modules standalone_modules waits st0 =
            (Thrown ?e, registered)"
      if "start_modules_loop env ignored_modules standalone_modules before (st0, []) = Inr (st, to_spawn)"
      using that fail
      by (simp add: boot_def start_modules_def start_modules_loop_append)
    with fail show ?thesis
      by (auto simp: main_def)
  qed
  have c5: "modules_dir env \<noteq> [] \<and> last (modules_dir env) \<noteq> CHR ''/'' \<and> module_type \<noteq> []
          \<and> hd module_type \<noteq> CHR ''/'' \<and> last module_type \<noteq> CHR ''/'' \<longrightarrow>
            binary_path = modules_dir env @ ''/'' @ module_type @ ''/'' @ module_type
            \<and> javascript_library_path = modules_dir env @ ''/'' @ module_type @ ''/index.js''
            \<and> python_module_path = modules_dir env @ ''/'' @ module_type @ ''/module.py''"
    by (simp add: binary_path_def javascript_library_path_def python_module_path_def path_append_def)
  from c1 c2 c3 c4 c5 show ?thesis by blast
qed

lemma example_start_three:
  "start_modules_loop example_env [] [''s''] (butlast example_config) (fresh_manager, []) =
     Inr (started_manager\<lparr>effects := butlast (effects started_manager)\<rparr>, example_to_spawn)"
  by (simp add: example_config_def start_module_def module_type_of_def capabilities_of_def
      json_string_def json_elements_def probe_module_def path_append_def emplace_def
      set_token_def emit_def example_env_def fresh_manager_def started_manager_def
      example_to_spawn_def Let_def)

text \<open>
  The theorem in \<open>example_env\<close>: \<open>Store\<close> has a binary and an \<open>index.js\<close> and starts as a
  binary, \<open>JsPanel\<close> has an \<open>index.js\<close> and a \<open>module.py\<close> and starts as JavaScript,
  \<open>PyDriver\<close> starts as Python, and \<open>Missing\<close> ends the start of the whole configuration,
  with the four modules in the table and their handlers registered.
\<close>

theorem start_language_by_first_existing_path_witness:
  "fs_exists example_env ''/usr/libexec/everest/modules/Store/Store''
   \<and> fs_exists example_env ''/usr/libexec/everest/modules/Store/index.js''
   \<and> (\<exists>st'. start_module example_env [] [] (hd example_config) (fresh_manager, []) =
          Inr (st', [\<lparr>name = ''a'', printable_name = ''a'', language = cpp,
                      path = ''/usr/libexec/everest/modules/Store/Store'', capabilities = []\<rparr>]))
   \<and> \<not> fs_exists example_env ''/usr/libexec/everest/modules/JsPanel/JsPanel''
   \<and> fs_exists example_env ''/usr/libexec/everest/modules/JsPanel/index.js''
   \<and> fs_exists example_env ''/usr/libexec/everest/modules/JsPanel/module.py''
   \<and> (\<exists>st'. start_module example_env [] [] (example_config ! 1) (fresh_manager, []) =
          Inr (st', [\<lparr>name = ''b'', printable_name = ''b'', language = javascript,
                      path = ''/usr/libexec/everest/modules/JsPanel/index.js'',
                      capabilities = [''cap_net_admin'']\<rparr>]))
   \<and> (\<exists>st'. start_module example_env [] [] python_item (fresh_manager, []) =
          Inr (st', [\<lparr>name = ''s'', printable_name = ''s'', language = python,
                      path = ''/usr/libexec/everest/modules/PyDriver/module.py'',
                      capabilities = []\<rparr>]))
   \<and> modules_dir example_env \<noteq> [] \<and> last (modules_dir example_env) \<noteq> CHR ''/''
   \<and> path_append (path_append (modules_dir example_env) ''Store'') ''Store'' =
       modules_dir example_env @ ''/Store/Store''
   \<and> example_config = butlast example_config @ missing_item # []
   \<and> boot example_env example_config [] [''s''] [] fresh_manager =
       (Thrown (Module_not_found (''    py:  {}'' @ [CHR 0x0A]) ''x'' ''Missing''
                  ''/usr/libexec/everest/modules/Missing/Missing''), failed_start_manager)
   \<and> map fst (modules_ready failed_start_manager) = [''a'', ''b'', ''s'', ''x'']
   \<and> main (fst (boot example_env example_config [] [''s''] [] fresh_manager)) = Some EXIT_FAILURE"
proof -
  have dir: "modules_dir example_env = ''/usr/libexec/everest/modules''"
    by (simp add: example_env_def)
  have ex: "fs_exists example_env p =
      (p \<in> set [''/usr/libexec/everest/modules/Store/Store'',
                 ''/usr/libexec/everest/modules/Store/index.js'',
                 ''/usr/libexec/everest/modules/JsPanel/index.js'',
                 ''/usr/libexec/everest/modules/JsPanel/module.py'',
                 ''/usr/libexec/everest/modules/PyDriver/module.py''])" for p
    by (simp add: example_env_def)
  have canon: "fs_canonical example_env p = p" for p
    by (simp add: example_env_def)
  have printable: "printable_identifier example_env n = n" for n
    by (simp add: example_env_def)
  have prefix: "mqtt_module_prefix example_env n = ''everest/modules/'' @ n" for n
    by (simp add: example_env_def)
  have a: "fst (hd example_config) \<notin> set []" "fst (hd example_config) \<notin> set []"
    "module_type_of (snd (hd example_config)) = Inr ''Store''"
    "capabilities_of (snd (hd example_config)) = Inr []"
    by (simp_all add: example_config_def module_type_of_def capabilities_of_def json_string_def)
  have b: "fst (example_config ! 1) \<notin> set []" "fst (example_config ! 1) \<notin> set []"
    "module_type_of (snd (example_config ! 1)) = Inr ''JsPanel''"
    "capabilities_of (snd (example_config ! 1)) = Inr [''cap_net_admin'']"
    by (simp_all add: example_config_def module_type_of_def capabilities_of_def json_string_def
        json_elements_def)
  have p: "fst python_item \<notin> set []" "fst python_item \<notin> set []"
    "module_type_of (snd python_item) = Inr ''PyDriver''"
    "capabilities_of (snd python_item) = Inr []"
    by (simp_all add: python_item_def module_type_of_def capabilities_of_def json_string_def)
  have x: "fst missing_item \<notin> set []" "fst missing_item \<notin> set [''s'']"
    "module_type_of (snd missing_item) = Inr ''Missing''"
    "capabilities_of (snd missing_item) = Inr []"
    by (simp_all add: missing_item_def module_type_of_def capabilities_of_def json_string_def)
  have split: "example_config = butlast example_config @ missing_item # []"
    by (simp add: example_config_def missing_item_def)
  from start_language_by_first_existing_path [OF a, of example_env fresh_manager "[]"]
  have ra: "\<exists>st'. start_module example_env [] [] (hd example_config) (fresh_manager, []) =
          Inr (st', [\<lparr>name = ''a'', printable_name = ''a'', language = cpp,
                      path = ''/usr/libexec/everest/modules/Store/Store'', capabilities = []\<rparr>])"
    by (simp add: dir ex printable path_append_def example_config_def)
  from start_language_by_first_existing_path [OF b, of example_env fresh_manager "[]"]
  have rb: "\<exists>st'. start_module example_env [] [] (example_config ! 1) (fresh_manager, []) =
          Inr (st', [\<lparr>name = ''b'', printable_name = ''b'', language = javascript,
                      path = ''/usr/libexec/everest/modules/JsPanel/index.js'',
                      capabilities = [''cap_net_admin'']\<rparr>])"
    by (simp add: dir ex canon printable path_append_def example_config_def)
  from start_language_by_first_existing_path [OF p, of example_env fresh_manager "[]"]
  have rp: "\<exists>st'. start_module example_env [] [] python_item (fresh_manager, []) =
          Inr (st', [\<lparr>name = ''s'', printable_name = ''s'', language = python,
                      path = ''/usr/libexec/everest/modules/PyDriver/module.py'',
                      capabilities = []\<rparr>])"
    by (simp add: dir ex canon printable path_append_def python_item_def)
  have reg: "emit ([] @ [Register_handler (mqtt_module_prefix example_env ''x'' @ ''/ready'') (Some ''x'')])
      ((started_manager\<lparr>effects := butlast (effects started_manager)\<rparr>)
         \<lparr>modules_ready :=
            set_token ''x'' (Some ''x'')
              (emplace ''x'' \<lparr>ready = False, token = None\<rparr>
                 (modules_ready (started_manager\<lparr>effects := butlast (effects started_manager)\<rparr>)))\<rparr>) =
      failed_start_manager"
    by (simp add: prefix emit_def emplace_def set_token_def started_manager_def
        failed_start_manager_def)
  from start_language_by_first_existing_path [OF x, of example_env
      "started_manager\<lparr>effects := butlast (effects started_manager)\<rparr>" example_to_spawn
      "butlast example_config" fresh_manager "[]" "[]"]
    example_start_three
  have rx: "boot example_env (butlast example_config @ missing_item # []) [] [''s''] [] fresh_manager =
       (Thrown (Module_not_found (''    py:  {}'' @ [CHR 0x0A]) ''x'' ''Missing''
                  ''/usr/libexec/everest/modules/Missing/Missing''), failed_start_manager)
      \<and> main (fst (boot example_env (butlast example_config @ missing_item # []) [] [''s''] []
                      fresh_manager)) = Some EXIT_FAILURE"
    using reg
    by (simp add: dir ex path_append_def missing_item_def main_def)
  have files: "fs_exists example_env ''/usr/libexec/everest/modules/Store/Store''"
    "fs_exists example_env ''/usr/libexec/everest/modules/Store/index.js''"
    "\<not> fs_exists example_env ''/usr/libexec/everest/modules/JsPanel/JsPanel''"
    "fs_exists example_env ''/usr/libexec/everest/modules/JsPanel/index.js''"
    "fs_exists example_env ''/usr/libexec/everest/modules/JsPanel/module.py''"
    by (simp_all add: ex)
  from rx split have rx': "boot example_env example_config [] [''s''] [] fresh_manager =
       (Thrown (Module_not_found (''    py:  {}'' @ [CHR 0x0A]) ''x'' ''Missing''
                  ''/usr/libexec/everest/modules/Missing/Missing''), failed_start_manager)
      \<and> main (fst (boot example_env example_config [] [''s''] [] fresh_manager)) = Some EXIT_FAILURE"
    by (simp add: main_def)
  have tbl: "map fst (modules_ready failed_start_manager) = [''a'', ''b'', ''s'', ''x'']"
    by (simp add: failed_start_manager_def started_manager_def)
  have plain: "modules_dir example_env \<noteq> []" "last (modules_dir example_env) \<noteq> CHR ''/''"
    by (simp_all add: dir)
  with start_language_by_first_existing_path [OF a, of example_env fresh_manager "[]"]
  have paths: "path_append (path_append (modules_dir example_env) ''Store'') ''Store'' =
       modules_dir example_env @ ''/Store/Store''"
    by simp
  from files ra rb rp plain paths split rx' tbl show ?thesis by blast
qed







lemma status_updates_append: "status_updates (xs @ ys) = status_updates xs @ status_updates ys"
  by (induction xs rule: status_updates.induct) simp_all

lemma signals_to_append: "signals_to p (xs @ ys) = signals_to p xs @ signals_to p ys"
  by (induction p xs rule: signals_to.induct) simp_all

lemma status_updates_unregister:
  "status_updates (map (\<lambda>module. Unregister_handler (f module) (g module)) tbl) = []"
  by (induction tbl) simp_all

lemma signals_to_unregister:
  "signals_to p (map (\<lambda>module. Unregister_handler (f module) (g module)) tbl) = []"
  by (induction tbl) simp_all

lemma status_updates_terminate_child: "status_updates (terminate_child env child) = []"
  by (simp add: terminate_child_def Let_def)

lemma signals_to_terminate_child:
  "signals_to p (terminate_child env child) =
     (if fst child = p
      then (if kill env p SIGTERM \<noteq> 0 then [SIGTERM, SIGKILL] else [SIGTERM])
      else [])"
  by (simp add: terminate_child_def Let_def)

lemma status_updates_terminate_all:
  "status_updates (concat (map (terminate_child env) children)) = []"
  by (induction children) (simp_all add: status_updates_append status_updates_terminate_child)

lemma signals_to_terminate_all:
  "distinct (map fst children) \<Longrightarrow>
   signals_to p (concat (map (terminate_child env) children)) =
     (if p \<in> fst ` set children
      then (if kill env p SIGTERM \<noteq> 0 then [SIGTERM, SIGKILL] else [SIGTERM])
      else [])"
proof (induction children)
  case Nil
  then show ?case by simp
next
  case (Cons child children)
  show ?case
  proof (cases "fst child = p")
    case True
    with Cons show ?thesis
      by (simp add: signals_to_append signals_to_terminate_child)
  next
    case False
    with Cons show ?thesis
      by (simp add: signals_to_append signals_to_terminate_child)
  qed
qed

lemma wait_turn_module_exit:
  assumes "modules_started st"
      and "map_of (module_handles st) child_pid = Some module_name"
      and "child_pid \<noteq> 0" and "child_pid \<noteq> - 1"
  shows "wait_turn env (child_pid, wstatus) st =
           (Returned EXIT_FAILURE,
            st\<lparr>modules_ready := [],
               module_handles := filter (\<lambda>entry. fst entry \<noteq> child_pid) (module_handles st),
               modules_started := False,
               effects := effects st @
                 [Log Critical (Module_exited_terminating_all module_name child_pid wstatus)] @
                 map (\<lambda>module. Unregister_handler (mqtt_module_prefix env (fst module) @ ''/ready'')
                                                  (token (snd module)))
                     (modules_ready st) @
                 concat (map (terminate_child env)
                           (filter (\<lambda>entry. fst entry \<noteq> child_pid) (module_handles st))) @
                 [Log Critical Exiting_manager]\<rparr>)"
  using assms
  by (simp add: wait_turn_def shutdown_modules_def emit_def Let_def)


text \<open>
  Claim C2, as amended. When a module process exits while the fleet is running, one turn of
  the wait loop writes the exit status to the log, sends \<open>SIGTERM\<close> to every remaining
  sibling, sends \<open>SIGKILL\<close> to a sibling exactly when the call of \<^verbatim>\<open>kill\<close> with \<open>SIGTERM\<close>
  for it failed, and then at once, writes nothing to the status fifo, and makes \<open>boot\<close>
  return \<open>EXIT_FAILURE\<close>, which is not zero.
\<close>

theorem module_exit_terminates_all:
  assumes running: "modules_started st"
      and child: "map_of (module_handles st) child_pid = Some module_name"
      and valid: "child_pid \<noteq> 0" "child_pid \<noteq> - 1"
      and handles: "distinct (map fst (module_handles st))"
  shows "\<exists>st' later.
           wait_turn env (child_pid, wstatus) st = (Returned EXIT_FAILURE, st')
         \<and> wait_loop env ((child_pid, wstatus) # rest) st = (Returned EXIT_FAILURE, st')
         \<and> main (Returned EXIT_FAILURE) = Some EXIT_FAILURE \<and> EXIT_FAILURE \<noteq> 0
         \<and> effects st' =
             effects st @ Log Critical (Module_exited_terminating_all module_name child_pid wstatus) # later
         \<and> (\<forall>sibling \<in> fst ` set (module_handles st) - {child_pid}.
               signals_to sibling later =
                 (if kill env sibling SIGTERM \<noteq> 0 then [SIGTERM, SIGKILL] else [SIGTERM]))
         \<and> signals_to child_pid later = []
         \<and> status_updates (effects st') = status_updates (effects st)
         \<and> (kill env p SIGTERM \<noteq> 0 \<longrightarrow>
               take 3 (terminate_child env (p, n)) =
                 [Kill p SIGTERM, Log Critical (Sigterm_failed n p (kill env p SIGTERM)), Kill p SIGKILL])"
proof -
  let ?siblings = "filter (\<lambda>entry. fst entry \<noteq> child_pid) (module_handles st)"
  let ?later = "map (\<lambda>module. Unregister_handler (mqtt_module_prefix env (fst module) @ ''/ready'')
                                                  (token (snd module)))
                     (modules_ready st) @
                 concat (map (terminate_child env) ?siblings) @
                 [Log Critical Exiting_manager]"
  let ?st' = "st\<lparr>modules_ready := [],
               module_handles := ?siblings,
               modules_started := False,
               effects := effects st @
                 [Log Critical (Module_exited_terminating_all module_name child_pid wstatus)] @ ?later\<rparr>"
  have turn: "wait_turn env (child_pid, wstatus) st = (Returned EXIT_FAILURE, ?st')"
    by (rule wait_turn_module_exit [OF running child valid])
  then have loop: "wait_loop env ((child_pid, wstatus) # rest) st = (Returned EXIT_FAILURE, ?st')"
    by simp
  have code: "main (Returned EXIT_FAILURE) = Some EXIT_FAILURE" "EXIT_FAILURE \<noteq> 0"
    by (simp_all add: main_def EXIT_FAILURE_def)
  have eff: "effects ?st' =
      effects st @ Log Critical (Module_exited_terminating_all module_name child_pid wstatus) # ?later"
    by simp
  from handles have d: "distinct (map fst ?siblings)"
    by (simp add: distinct_map_filter)
  have keys: "fst ` set ?siblings = fst ` set (module_handles st) - {child_pid}"
    by auto
  have sig: "signals_to q ?later =
      (if q \<in> fst ` set (module_handles st) - {child_pid}
       then (if kill env q SIGTERM \<noteq> 0 then [SIGTERM, SIGKILL] else [SIGTERM])
       else [])" for q
    by (simp only: signals_to_append signals_to_unregister signals_to_terminate_all [OF d] keys)
      simp
  then have sib: "\<forall>sibling \<in> fst ` set (module_handles st) - {child_pid}.
               signals_to sibling ?later =
                 (if kill env sibling SIGTERM \<noteq> 0 then [SIGTERM, SIGKILL] else [SIGTERM])"
    by simp
  from sig have own: "signals_to child_pid ?later = []"
    by simp
  have quiet: "status_updates (effects ?st') = status_updates (effects st)"
    by (simp add: status_updates_append status_updates_unregister status_updates_terminate_all)
  have esc: "kill env p SIGTERM \<noteq> 0 \<longrightarrow>
               take 3 (terminate_child env (p, n)) =
                 [Kill p SIGTERM, Log Critical (Sigterm_failed n p (kill env p SIGTERM)), Kill p SIGKILL]"
    by (simp add: terminate_child_def Let_def)
  from turn loop code eff sib own quiet esc show ?thesis
    by blast
qed

lemma example_spawn: "spawn_modules example_env example_to_spawn [] = Inr [(101, ''a''), (102, ''b'')]"
  by (simp add: example_to_spawn_def example_env_def check_child_executed_def map_assign_def Let_def)

lemma example_boot:
  "boot example_env example_config [''x''] [''s''] [(101, 9)] fresh_manager =
     (Returned EXIT_FAILURE, stopped_manager)"
  by (simp add: boot_def start_modules_def example_start example_spawn)
    (simp add: wait_turn_def shutdown_modules_def terminate_child_def emit_def Let_def
      started_manager_def stopped_manager_def example_env_def)

text \<open>
  Claim C2 as it is stated fails. In \<open>example_env\<close>, when process 101 exits, \<open>boot\<close>
  sends \<open>SIGTERM\<close> to process 102, the call fails, and the next system call is the
  \<open>SIGKILL\<close>: nothing waits for a grace period. Nothing is written to the status fifo.
\<close>

theorem no_grace_period_and_no_failure_status:
  "boot example_env example_config [''x''] [''s''] [(101, 9)] fresh_manager =
     (Returned EXIT_FAILURE, stopped_manager)
   \<and> drop 10 (effects stopped_manager) =
       [Kill 102 SIGTERM, Log Critical (Sigterm_failed ''b'' 102 (- 1)), Kill 102 SIGKILL,
        Log Info (Sigkill_succeeded ''b'' 102), Log Critical Exiting_manager]
   \<and> status_updates (effects stopped_manager) = []"
  by (simp add: example_boot) (simp add: stopped_manager_def started_manager_def)

text \<open>The theorem for \<open>running_manager\<close> when process 101 exits.\<close>

theorem module_exit_terminates_all_witness:
  "modules_started running_manager
   \<and> map_of (module_handles running_manager) 101 = Some ''a''
   \<and> distinct (map fst (module_handles running_manager))
   \<and> wait_turn example_env (101, 9) running_manager = (Returned EXIT_FAILURE, stopped_manager)
   \<and> 102 \<in> fst ` set (module_handles running_manager) - {101}
   \<and> kill example_env 102 SIGTERM \<noteq> 0
   \<and> signals_to 102 (drop 7 (effects stopped_manager)) = [SIGTERM, SIGKILL]
   \<and> status_updates (effects stopped_manager) = status_updates (effects running_manager)
   \<and> take 3 (terminate_child example_env (102, ''b'')) =
       [Kill 102 SIGTERM, Log Critical (Sigterm_failed ''b'' 102 (- 1)), Kill 102 SIGKILL]"
proof -
  have running: "modules_started running_manager"
    by (simp add: running_manager_def)
  have child: "map_of (module_handles running_manager) 101 = Some ''a''"
    by (simp add: running_manager_def)
  have valid: "(101::int) \<noteq> 0" "(101::int) \<noteq> - 1"
    by simp_all
  have handles: "distinct (map fst (module_handles running_manager))"
    by (simp add: running_manager_def)
  have sibling: "102 \<in> fst ` set (module_handles running_manager) - {101}"
    by (simp add: running_manager_def)
  have fails: "kill example_env 102 SIGTERM = - 1"
    by (simp add: example_env_def)
  have turn: "wait_turn example_env (101, 9) running_manager = (Returned EXIT_FAILURE, stopped_manager)"
    by (simp add: wait_turn_def shutdown_modules_def terminate_child_def emit_def Let_def
      started_manager_def stopped_manager_def example_env_def running_manager_def)
  have len: "length (effects running_manager) = 6"
    by (simp add: running_manager_def started_manager_def)
  from module_exit_terminates_all [OF running child valid handles, of example_env 9 "[]" 102 "''b''"]
  obtain st' later where
    t: "wait_turn example_env (101, 9) running_manager = (Returned EXIT_FAILURE, st')" and
    e: "effects st' = effects running_manager @ Log Critical (Module_exited_terminating_all ''a'' 101 9) # later" and
    s: "\<forall>sibling \<in> fst ` set (module_handles running_manager) - {101}.
               signals_to sibling later =
                 (if kill example_env sibling SIGTERM \<noteq> 0 then [SIGTERM, SIGKILL] else [SIGTERM])" and
    q: "status_updates (effects st') = status_updates (effects running_manager)" and
    k: "kill example_env 102 SIGTERM \<noteq> 0 \<longrightarrow>
               take 3 (terminate_child example_env (102, ''b'')) =
                 [Kill 102 SIGTERM, Log Critical (Sigterm_failed ''b'' 102 (kill example_env 102 SIGTERM)), Kill 102 SIGKILL]"
    by blast
  from t turn have st': "st' = stopped_manager" by simp
  from e len have "later = drop 7 (effects stopped_manager)"
    by (simp add: st')
  with s sibling fails have sig: "signals_to 102 (drop 7 (effects stopped_manager)) = [SIGTERM, SIGKILL]"
    by auto
  from q have quiet: "status_updates (effects stopped_manager) = status_updates (effects running_manager)"
    by (simp add: st')
  from k fails have esc: "take 3 (terminate_child example_env (102, ''b'')) =
       [Kill 102 SIGTERM, Log Critical (Sigterm_failed ''b'' 102 (- 1)), Kill 102 SIGKILL]"
    by simp
  from fails have f: "kill example_env 102 SIGTERM \<noteq> 0" by simp
  from running child handles turn sibling f sig quiet esc show ?thesis
    by blast
qed

section \<open>Properties of \<open>get_instance\<close> and of the loader\<close>

lemma get_instance_constructed:
  "static_instance p = Some i \<Longrightarrow> get_instance ctor m c v a port p = (Inr i, p)"
  by (simp add: get_instance_def)

lemma get_instance_Inr:
  "get_instance ctor m c v a port p = (Inr i, p1) \<Longrightarrow> static_instance p1 = Some i"
  by (auto simp: get_instance_def Let_def split: option.splits sum.splits)

lemma get_instance_calls_constructed:
  "static_instance p = Some i \<Longrightarrow> get_instance_calls ctor later p = (map (\<lambda>_. Inr i) later, p)"
  by (induction later) (auto simp: get_instance_constructed Let_def)

text \<open>
  Claim C9, as amended. After a call of \<open>get_instance\<close> has returned an instance, every
  later call in the same process, of any of the three overloads and with any arguments,
  returns that instance and leaves the process as it is: the constructor does not run
  again, so the arguments of the later calls have no effect. A call whose constructor
  throws returns no instance and leaves the static variable unconstructed: the next call
  runs the constructor with its own arguments, and returns what that constructor gives.
\<close>

theorem get_instance_singleton:
  "(get_instance ctor m1 c1 v1 a1 port1 p = (Inr i, p1) \<longrightarrow>
      get_instance ctor m2 c2 v2 a2 port2 p1 = (Inr i, p1)
      \<and> get_instance_3 ctor m2 c2 v2 p1 = (Inr i, p1)
      \<and> get_instance_2 ctor m2 c2 p1 = (Inr i, p1)
      \<and> get_instance_calls ctor later p1 = (map (\<lambda>_. Inr i) later, p1)
      \<and> constructed_with p1 =
          constructed_with p @
            (if static_instance p = None then [(m1, c1, v1, a1, port1)] else []))
   \<and> (get_instance ctor m1 c1 v1 a1 port1 p = (Inl e, p1) \<longrightarrow>
      static_instance p = None \<and> static_instance p1 = None
      \<and> ctor m1 c1 v1 a1 port1 = Inl e
      \<and> constructed_with p1 = constructed_with p @ [(m1, c1, v1, a1, port1)]
      \<and> fst (get_instance ctor m2 c2 v2 a2 port2 p1) = ctor m2 c2 v2 a2 port2
      \<and> constructed_with (snd (get_instance ctor m2 c2 v2 a2 port2 p1)) =
          constructed_with p1 @ [(m2, c2, v2, a2, port2)])"
proof (rule conjI; rule impI)
  assume first: "get_instance ctor m1 c1 v1 a1 port1 p = (Inr i, p1)"
  then have inst: "static_instance p1 = Some i"
    by (rule get_instance_Inr)
  from first have "constructed_with p1 =
           constructed_with p @
             (if static_instance p = None then [(m1, c1, v1, a1, port1)] else [])"
    by (auto simp: get_instance_def Let_def split: option.splits sum.splits)
  with inst show "get_instance ctor m2 c2 v2 a2 port2 p1 = (Inr i, p1)
      \<and> get_instance_3 ctor m2 c2 v2 p1 = (Inr i, p1)
      \<and> get_instance_2 ctor m2 c2 p1 = (Inr i, p1)
      \<and> get_instance_calls ctor later p1 = (map (\<lambda>_. Inr i) later, p1)
      \<and> constructed_with p1 =
          constructed_with p @
            (if static_instance p = None then [(m1, c1, v1, a1, port1)] else [])"
    by (simp add: get_instance_3_def get_instance_2_def get_instance_constructed
        get_instance_calls_constructed)
next
  assume thrown: "get_instance ctor m1 c1 v1 a1 port1 p = (Inl e, p1)"
  then have before: "static_instance p = None"
    by (cases "static_instance p") (simp_all add: get_instance_def)
  with thrown have c: "ctor m1 c1 v1 a1 port1 = Inl e"
    and p1: "p1 = p\<lparr>constructed_with := constructed_with p @ [(m1, c1, v1, a1, port1)]\<rparr>"
    by (cases "ctor m1 c1 v1 a1 port1"; simp add: get_instance_def Let_def)+
  from before p1 have after: "static_instance p1 = None"
    by simp
  from after have "fst (get_instance ctor m2 c2 v2 a2 port2 p1) = ctor m2 c2 v2 a2 port2"
    and "constructed_with (snd (get_instance ctor m2 c2 v2 a2 port2 p1)) =
          constructed_with p1 @ [(m2, c2, v2, a2, port2)]"
    by (cases "ctor m2 c2 v2 a2 port2"; simp add: get_instance_def Let_def)+
  with before after c p1
  show "static_instance p = None \<and> static_instance p1 = None
      \<and> ctor m1 c1 v1 a1 port1 = Inl e
      \<and> constructed_with p1 = constructed_with p @ [(m1, c1, v1, a1, port1)]
      \<and> fst (get_instance ctor m2 c2 v2 a2 port2 p1) = ctor m2 c2 v2 a2 port2
      \<and> constructed_with (snd (get_instance ctor m2 c2 v2 a2 port2 p1)) =
          constructed_with p1 @ [(m2, c2, v2, a2, port2)]"
    by simp
qed

text \<open>
  The theorem for \<open>example_ctor\<close>: a first call for \<open>evse\<close>, then calls for other modules
  and another broker. And for \<open>picky_ctor\<close>: a first call that throws, then a call for
  \<open>store\<close> on another broker, which constructs the instance.
\<close>

theorem get_instance_singleton_witness:
  "get_instance_2 example_ctor ''evse'' JNull fresh_process =
     (Inr (''evse'', True, ''localhost'', ''1883''), first_process)
   \<and> get_instance example_ctor ''store'' (JBool True) False ''broker'' ''8883'' first_process =
       (Inr (''evse'', True, ''localhost'', ''1883''), first_process)
   \<and> get_instance_3 example_ctor ''store'' (JBool True) False first_process =
       (Inr (''evse'', True, ''localhost'', ''1883''), first_process)
   \<and> get_instance_calls example_ctor
         [(''store'', JBool True, False, ''broker'', ''8883''), (''x'', JNull, True, ''y'', ''z'')]
         first_process =
       ([Inr (''evse'', True, ''localhost'', ''1883''), Inr (''evse'', True, ''localhost'', ''1883'')],
        first_process)
   \<and> constructed_with first_process = [(''evse'', JNull, True, ''localhost'', ''1883'')]
   \<and> get_instance picky_ctor ''evse'' JNull True ''localhost'' ''1883'' fresh_process =
       (Inl Json_type_error, failed_process)
   \<and> static_instance failed_process = None
   \<and> constructed_with failed_process = [(''evse'', JNull, True, ''localhost'', ''1883'')]
   \<and> fst (get_instance picky_ctor ''store'' (JObject []) False ''broker'' ''8883'' failed_process) =
       Inr (''store'', False, ''broker'', ''8883'')
   \<and> constructed_with
         (snd (get_instance picky_ctor ''store'' (JObject []) False ''broker'' ''8883'' failed_process)) =
       [(''evse'', JNull, True, ''localhost'', ''1883''), (''store'', JObject [], False, ''broker'', ''8883'')]"
proof -
  have first: "get_instance example_ctor ''evse'' JNull True ''localhost'' ''1883'' fresh_process =
     (Inr (''evse'', True, ''localhost'', ''1883''), first_process)"
    by (simp add: get_instance_def example_ctor_def fresh_process_def first_process_def)
  then have first2: "get_instance_2 example_ctor ''evse'' JNull fresh_process =
     (Inr (''evse'', True, ''localhost'', ''1883''), first_process)"
    by (simp add: get_instance_2_def get_instance_3_def)
  note inst = get_instance_singleton [where ctor = example_ctor and ?m1.0 = "''evse''"
      and ?c1.0 = JNull and ?v1.0 = True and ?a1.0 = "''localhost''" and ?port1.0 = "''1883''"
      and p = fresh_process and i = "(''evse'', True, ''localhost'', ''1883'')"
      and ?p1.0 = first_process
      and ?m2.0 = "''store''" and ?c2.0 = "JBool True"
      and ?v2.0 = False and ?a2.0 = "''broker''" and ?port2.0 = "''8883''"
      and later = "[(''store'', JBool True, False, ''broker'', ''8883''), (''x'', JNull, True, ''y'', ''z'')]",
      THEN conjunct1, rule_format, OF first]
  from inst have calls: "get_instance_calls example_ctor
         [(''store'', JBool True, False, ''broker'', ''8883''), (''x'', JNull, True, ''y'', ''z'')]
         first_process =
       ([Inr (''evse'', True, ''localhost'', ''1883''), Inr (''evse'', True, ''localhost'', ''1883'')],
        first_process)"
    by (simp del: get_instance_calls.simps)
  from inst have built: "constructed_with first_process = [(''evse'', JNull, True, ''localhost'', ''1883'')]"
    by (simp del: get_instance_calls.simps add: fresh_process_def)
  have thrown: "get_instance picky_ctor ''evse'' JNull True ''localhost'' ''1883'' fresh_process =
       (Inl Json_type_error, failed_process)"
    by (simp add: get_instance_def picky_ctor_def fresh_process_def failed_process_def)
  note again = get_instance_singleton [where ctor = picky_ctor and ?m1.0 = "''evse''"
      and ?c1.0 = JNull and ?v1.0 = True and ?a1.0 = "''localhost''" and ?port1.0 = "''1883''"
      and p = fresh_process and e = Json_type_error and ?p1.0 = failed_process
      and ?m2.0 = "''store''" and ?c2.0 = "JObject []"
      and ?v2.0 = False and ?a2.0 = "''broker''" and ?port2.0 = "''8883''",
      THEN conjunct2, rule_format, OF thrown]
  have built2: "constructed_with failed_process = [(''evse'', JNull, True, ''localhost'', ''1883'')]"
    by (simp add: failed_process_def)
  have gives: "picky_ctor ''store'' (JObject []) False ''broker'' ''8883'' =
      Inr (''store'', False, ''broker'', ''8883'')"
    by (simp add: picky_ctor_def)
  from again have none: "static_instance failed_process = None"
    and res: "fst (get_instance picky_ctor ''store'' (JObject []) False ''broker'' ''8883'' failed_process) =
       Inr (''store'', False, ''broker'', ''8883'')"
    and args: "constructed_with
         (snd (get_instance picky_ctor ''store'' (JObject []) False ''broker'' ''8883'' failed_process)) =
       [(''evse'', JNull, True, ''localhost'', ''1883''), (''store'', JObject [], False, ''broker'', ''8883'')]"
    unfolding gives built2 by simp_all
  from inst first2 calls built thrown none built2 res args show ?thesis
    by blast
qed

text \<open>
  Claim C9 as it is stated fails when the constructor of the first call throws: the call
  returns no instance, and of two processes that start with the same failing call, the one
  whose second call is for \<open>evse\<close> gets the instance made for \<open>evse\<close> and the one whose
  second call is for \<open>store\<close> on another broker gets the instance made for \<open>store\<close>. The
  arguments of a call after the first decide the instance.
\<close>

theorem get_instance_after_throwing_constructor:
  "get_instance picky_ctor ''evse'' JNull True ''localhost'' ''1883'' fresh_process =
     (Inl Json_type_error, failed_process)
   \<and> fst (get_instance picky_ctor ''evse'' (JObject []) True ''localhost'' ''1883'' failed_process) =
       Inr (''evse'', True, ''localhost'', ''1883'')
   \<and> fst (get_instance picky_ctor ''store'' (JObject []) False ''broker'' ''8883'' failed_process) =
       Inr (''store'', False, ''broker'', ''8883'')
   \<and> fst (get_instance picky_ctor ''evse'' (JObject []) True ''localhost'' ''1883'' failed_process) \<noteq>
       fst (get_instance picky_ctor ''store'' (JObject []) False ''broker'' ''8883'' failed_process)"
  by (simp add: get_instance_def picky_ctor_def fresh_process_def failed_process_def)

text \<open>
  Claim C8. The loader accepts the empty document and \<^verbatim>\<open>null\<close> (both \<open>JNull\<close>), the empty
  object and every other document that is neither an object nor a string as a configuration
  with no modules; it rejects a document whose top level is a string with a
  \<open>ConfigError\<close> that names the file.
\<close>

theorem load_edge_cases:
  "load resolve config_file JNull = Inr \<lparr>active_modules = []\<rparr>
   \<and> load resolve config_file (JObject []) = Inr \<lparr>active_modules = []\<rparr>
   \<and> load resolve config_file (JBool b) = Inr \<lparr>active_modules = []\<rparr>
   \<and> load resolve config_file (JNumber n) = Inr \<lparr>active_modules = []\<rparr>
   \<and> load resolve config_file (JArray js) = Inr \<lparr>active_modules = []\<rparr>
   \<and> module_ids \<lparr>active_modules = []\<rparr> = []
   \<and> (\<exists>e. load resolve config_file (JString s) = Inl e \<and> config_file_name e = config_file)"
  by (simp add: load_def module_ids_def)

end
